theory Spec2Isabelle
  imports Main
begin

section \<open>Nudgy: daily reminders, their notifications and their persistence\<close>

text \<open>
  The program is one React component (\<^verbatim>\<open>AppContent\<close>). Its logic lives in five
  closures: \<^verbatim>\<open>scheduleNotification\<close>, \<^verbatim>\<open>loadReminders\<close>, \<^verbatim>\<open>saveReminders\<close>,
  \<^verbatim>\<open>addReminder\<close> and \<^verbatim>\<open>deleteReminder\<close>. They are embedded below as functions
  on an explicit state; what the host answers during a call (the clock, the random
  number, whether a storage write succeeds) is an explicit argument.

  Conventions of the embedding:
  \<^item> a JavaScript number that holds an integer is an \<open>int\<close>; all values that occur stay
    below \<open>2 ^ 53\<close> in magnitude as long as the dates involved are valid, so the
    arithmetic of the source is exact;
  \<^item> a \<^verbatim>\<open>Date\<close> is its time value, milliseconds since the epoch; a computed
    \<^verbatim>\<open>Date\<close> that may be invalid (time value \<^verbatim>\<open>NaN\<close>) is an \<open>int option\<close>,
    \<open>None\<close> being the invalid date;
  \<^item> the host's time zone is the function \<open>LocalTZA\<close> of the standard: the offset of
    local time, in milliseconds, at a given UTC instant or at a given local time;
  \<^item> text is a \<open>string\<close> of ASCII characters.
\<close>

subsection \<open>The calendar of ECMAScript dates\<close>

text \<open>
  \<^verbatim>\<open>getDate\<close>, \<^verbatim>\<open>setDate\<close> and \<^verbatim>\<open>toISOString\<close> are library functions of the
  language; they are written out after the abstract operations of the ECMAScript
  standard (section "Date Objects"), whose names are kept. \<open>div\<close> and \<open>mod\<close> on \<open>int\<close>
  round towards minus infinity, as the standard's \<open>floor\<close> and \<open>modulo\<close> do.
\<close>

definition msPerDay :: int where
  "msPerDay = 86400000"

definition Day :: "int \<Rightarrow> int" where
  "Day t = t div msPerDay"

definition TimeWithinDay :: "int \<Rightarrow> int" where
  "TimeWithinDay t = t mod msPerDay"

definition DaysInYear :: "int \<Rightarrow> int" where
  "DaysInYear y =
     (if y mod 4 \<noteq> 0 then 365
      else if y mod 100 \<noteq> 0 then 366
      else if y mod 400 \<noteq> 0 then 365
      else 366)"

definition DayFromYear :: "int \<Rightarrow> int" where
  "DayFromYear y =
     365 * (y - 1970) + (y - 1969) div 4 - (y - 1901) div 100 + (y - 1601) div 400"

text \<open>
  The standard defines \<open>YearFromTime t\<close> as the largest \<open>y\<close> whose first day is not
  after \<open>t\<close>. It is computed here from the estimate \<open>1970 + 400 * day / 146097\<close>,
  which is never off by more than one (lemma \<open>YearFromTime_bounds\<close>).
\<close>

definition YearFromTime :: "int \<Rightarrow> int" where
  "YearFromTime t =
     (let d = Day t; y0 = 1970 + (400 * d) div 146097
      in if DayFromYear (y0 + 1) \<le> d then y0 + 1
         else if DayFromYear y0 \<le> d then y0
         else y0 - 1)"

definition InLeapYear :: "int \<Rightarrow> int" where
  "InLeapYear t = (if DaysInYear (YearFromTime t) = 366 then 1 else 0)"

definition DayWithinYear :: "int \<Rightarrow> int" where
  "DayWithinYear t = Day t - DayFromYear (YearFromTime t)"

definition MonthFromTime :: "int \<Rightarrow> int" where
  "MonthFromTime t =
     (let d = DayWithinYear t; l = InLeapYear t
      in if d < 31 then 0
         else if d < 59 + l then 1
         else if d < 90 + l then 2
         else if d < 120 + l then 3
         else if d < 151 + l then 4
         else if d < 181 + l then 5
         else if d < 212 + l then 6
         else if d < 243 + l then 7
         else if d < 273 + l then 8
         else if d < 304 + l then 9
         else if d < 334 + l then 10
         else 11)"

definition DateFromTime :: "int \<Rightarrow> int" where
  "DateFromTime t =
     (let d = DayWithinYear t; l = InLeapYear t; m = MonthFromTime t
      in if m = 0 then d + 1
         else if m = 1 then d - 30
         else if m = 2 then d - 58 - l
         else if m = 3 then d - 89 - l
         else if m = 4 then d - 119 - l
         else if m = 5 then d - 150 - l
         else if m = 6 then d - 180 - l
         else if m = 7 then d - 211 - l
         else if m = 8 then d - 242 - l
         else if m = 9 then d - 272 - l
         else if m = 10 then d - 303 - l
         else d - 333 - l)"

text \<open>Days from the first of January to the first of month \<open>m\<close> (0 to 11).\<close>

definition daysBeforeMonth :: "int \<Rightarrow> int \<Rightarrow> int" where
  "daysBeforeMonth l m =
     (if m = 0 then 0
      else if m = 1 then 31
      else if m = 2 then 59 + l
      else if m = 3 then 90 + l
      else if m = 4 then 120 + l
      else if m = 5 then 151 + l
      else if m = 6 then 181 + l
      else if m = 7 then 212 + l
      else if m = 8 then 243 + l
      else if m = 9 then 273 + l
      else if m = 10 then 304 + l
      else 334 + l)"

text \<open>
  \<open>MakeDay year month date\<close>: the day number of the first of the month \<open>month\<close>
  (months beyond 0 to 11 carry into the year), plus \<open>date - 1\<close>; a \<open>date\<close> beyond the
  month's length therefore runs into the following month.
\<close>

definition MakeDay :: "int \<Rightarrow> int \<Rightarrow> int \<Rightarrow> int" where
  "MakeDay year month date =
     (let ym = year + month div 12; mn = month mod 12;
          l = (if DaysInYear ym = 366 then 1 else 0)
      in DayFromYear ym + daysBeforeMonth l mn + date - 1)"

definition MakeDate :: "int \<Rightarrow> int \<Rightarrow> int" where
  "MakeDate day time = day * msPerDay + time"

definition TimeClip :: "int \<Rightarrow> int option" where
  "TimeClip t = (if \<bar>t\<bar> > 8640000000000000 then None else Some t)"

text \<open>
  The time zone: \<open>tza t True\<close> is the offset of local time at the UTC instant \<open>t\<close>,
  \<open>tza t False\<close> the offset at the local time \<open>t\<close> (the standard's
  \<open>LocalTZA(t, isUTC)\<close>, which the host defines). The offset may differ from one instant
  to another, as it does across a daylight saving change.
\<close>

type_synonym zone = "int \<Rightarrow> bool \<Rightarrow> int"

definition LocalTime :: "zone \<Rightarrow> int \<Rightarrow> int" where
  "LocalTime tza t = t + tza t True"

definition UTC :: "zone \<Rightarrow> int \<Rightarrow> int" where
  "UTC tza t = t - tza t False"

definition utcZone :: zone where
  "utcZone t isUTC = 0"

text \<open>\<^verbatim>\<open>Date.prototype.getDate\<close>: the day of the month, in local time.\<close>

definition getDate :: "zone \<Rightarrow> int \<Rightarrow> int" where
  "getDate tza t = DateFromTime (LocalTime tza t)"

text \<open>
  \<^verbatim>\<open>Date.prototype.setDate\<close>: the day of the month is replaced; year, month and time
  within the day of the receiver are kept.
\<close>

definition setDate :: "zone \<Rightarrow> int \<Rightarrow> int \<Rightarrow> int option" where
  "setDate tza t dt =
     (let lt = LocalTime tza t;
          newDate = MakeDate (MakeDay (YearFromTime lt) (MonthFromTime lt) dt) (TimeWithinDay lt)
      in TimeClip (UTC tza newDate))"

subsection \<open>Reminders and notification requests\<close>

record Reminder =
  id' :: string
  name :: string
  time :: int
  repeatCount :: int

datatype SchedulableTriggerInputTypes = TIME_INTERVAL

record NotificationContent =
  title :: string
  body :: string

record TriggerInput =
  type' :: SchedulableTriggerInputTypes
  seconds :: int
  repeats :: bool

record NotificationRequest =
  content :: NotificationContent
  trigger :: TriggerInput

subsection \<open>\<^verbatim>\<open>scheduleNotification\<close>\<close>

text \<open>
  \<^verbatim>\<open>const reminderTime = new Date(reminder.time); reminderTime.setDate(now.getDate());\<close>
\<close>

definition reminderTime :: "zone \<Rightarrow> int \<Rightarrow> Reminder \<Rightarrow> int option" where
  "reminderTime tza now reminder = setDate tza (time reminder) (getDate tza now)"

text \<open>
  \<^verbatim>\<open>new Date(reminderTime.getTime() + i * 3600 * 1000)\<close>: invalid when \<open>reminderTime\<close> is,
  or when the sum leaves the range of dates.
\<close>

definition fireDate :: "int option \<Rightarrow> int \<Rightarrow> int option" where
  "fireDate rt i = (case rt of None \<Rightarrow> None | Some b \<Rightarrow> TimeClip (b + i * 3600 * 1000))"

text \<open>\<^verbatim>\<open>fireDate > now\<close>: a comparison with an invalid date is false.\<close>

definition after :: "int option \<Rightarrow> int \<Rightarrow> bool" where
  "after d now = (case d of None \<Rightarrow> False | Some f \<Rightarrow> f > now)"

text \<open>The one request the loop body issues; \<open>1.5 * 60 * 60\<close> is 5400.\<close>

definition request :: "Reminder \<Rightarrow> NotificationRequest" where
  "request reminder =
     \<lparr> content = \<lparr> title = ''Reminder'', body = name reminder \<rparr>,
       trigger = \<lparr> type' = TIME_INTERVAL, seconds = 5400, repeats = True \<rparr> \<rparr>"

text \<open>
  The \<^verbatim>\<open>for\<close> loop from index \<open>i\<close> on; the result is the list of requests passed to
  \<^verbatim>\<open>Notifications.scheduleNotificationAsync\<close>, in order.
\<close>

function scheduleLoop :: "int option \<Rightarrow> int \<Rightarrow> Reminder \<Rightarrow> int \<Rightarrow> NotificationRequest list" where
  "scheduleLoop rt now reminder i =
     (if i < repeatCount reminder
      then (if after (fireDate rt i) now then [request reminder] else [])
           @ scheduleLoop rt now reminder (i + 1)
      else [])"
  by pat_completeness auto
termination
  by (relation "measure (\<lambda>(rt, now, reminder, i). nat (repeatCount reminder - i))") auto

declare scheduleLoop.simps [simp del]

definition scheduleNotification :: "zone \<Rightarrow> int \<Rightarrow> Reminder \<Rightarrow> NotificationRequest list" where
  "scheduleNotification tza now reminder =
     scheduleLoop (reminderTime tza now reminder) now reminder 0"

subsection \<open>\<^verbatim>\<open>toISOString\<close> and \<^verbatim>\<open>Date.parse\<close>\<close>

text \<open>
  \<^verbatim>\<open>JSON.stringify\<close> writes a \<^verbatim>\<open>Date\<close> through \<^verbatim>\<open>toISOString\<close>:
  \<^verbatim>\<open>YYYY-MM-DDTHH:mm:ss.sssZ\<close> in UTC, the year as \<^verbatim>\<open>+YYYYYY\<close> or \<^verbatim>\<open>-YYYYYY\<close> when
  it is not within 0 to 9999.
\<close>

definition HourFromTime :: "int \<Rightarrow> int" where
  "HourFromTime t = (t div 3600000) mod 24"

definition MinFromTime :: "int \<Rightarrow> int" where
  "MinFromTime t = (t div 60000) mod 60"

definition SecFromTime :: "int \<Rightarrow> int" where
  "SecFromTime t = (t div 1000) mod 60"

definition msFromTime :: "int \<Rightarrow> int" where
  "msFromTime t = t mod 1000"

definition MakeTime :: "int \<Rightarrow> int \<Rightarrow> int \<Rightarrow> int \<Rightarrow> int" where
  "MakeTime h m s ms = h * 3600000 + m * 60000 + s * 1000 + ms"

definition digitChar :: "nat \<Rightarrow> char" where
  "digitChar d = char_of (48 + d)"

definition pad2 :: "nat \<Rightarrow> string" where
  "pad2 n = [digitChar (n div 10 mod 10), digitChar (n mod 10)]"

definition pad3 :: "nat \<Rightarrow> string" where
  "pad3 n = [digitChar (n div 100 mod 10), digitChar (n div 10 mod 10), digitChar (n mod 10)]"

definition pad4 :: "nat \<Rightarrow> string" where
  "pad4 n = [digitChar (n div 1000 mod 10), digitChar (n div 100 mod 10),
             digitChar (n div 10 mod 10), digitChar (n mod 10)]"

definition pad6 :: "nat \<Rightarrow> string" where
  "pad6 n = [digitChar (n div 100000 mod 10), digitChar (n div 10000 mod 10),
             digitChar (n div 1000 mod 10), digitChar (n div 100 mod 10),
             digitChar (n div 10 mod 10), digitChar (n mod 10)]"

definition yearString :: "int \<Rightarrow> string" where
  "yearString y =
     (if 0 \<le> y \<and> y \<le> 9999 then pad4 (nat y)
      else (if y < 0 then ''-'' else ''+'') @ pad6 (nat \<bar>y\<bar>))"

definition toISOString :: "int \<Rightarrow> string" where
  "toISOString t =
     yearString (YearFromTime t) @ ''-'' @ pad2 (nat (MonthFromTime t + 1)) @ ''-''
     @ pad2 (nat (DateFromTime t)) @ ''T'' @ pad2 (nat (HourFromTime t)) @ '':''
     @ pad2 (nat (MinFromTime t)) @ '':'' @ pad2 (nat (SecFromTime t)) @ ''.''
     @ pad3 (nat (msFromTime t)) @ ''Z''"

definition digitVal :: "char \<Rightarrow> nat option" where
  "digitVal c =
     (let n = (of_char c :: nat) in if 48 \<le> n \<and> n \<le> 57 then Some (n - 48) else None)"

fun digitsFrom :: "nat \<Rightarrow> string \<Rightarrow> nat option" where
  "digitsFrom a [] = Some a"
| "digitsFrom a (c # cs) =
     (case digitVal c of None \<Rightarrow> None | Some d \<Rightarrow> digitsFrom (a * 10 + d) cs)"

definition digits :: "string \<Rightarrow> nat option" where
  "digits s = digitsFrom 0 s"

definition monthLength :: "int \<Rightarrow> int \<Rightarrow> int" where
  "monthLength l m =
     (if m = 1 then 28 + l
      else if m = 3 \<or> m = 5 \<or> m = 8 \<or> m = 10 then 30
      else 31)"

text \<open>
  The date-time string format every implementation of \<^verbatim>\<open>Date.parse\<close> must read: the
  complete form with the \<^verbatim>\<open>Z\<close> offset and elements in range. \<open>None\<close> stands for "not of
  this form", not for an invalid date.
\<close>

definition fromFields ::
  "bool \<Rightarrow> nat \<Rightarrow> nat \<Rightarrow> nat \<Rightarrow> nat \<Rightarrow> nat \<Rightarrow> nat \<Rightarrow> nat \<Rightarrow> int option" where
  "fromFields negative y mo d h mi sec ms =
     (let year = (if negative then - int y else int y);
          l = (if DaysInYear year = 366 then 1 else 0)
      in if (negative \<and> y = 0) \<or> mo < 1 \<or> 12 < mo \<or> d < 1
            \<or> monthLength l (int mo - 1) < int d \<or> 23 < h \<or> 59 < mi \<or> 59 < sec
         then None
         else Some (MakeDate (MakeDay year (int mo - 1) (int d))
                             (MakeTime (int h) (int mi) (int sec) (int ms))))"

definition parseISO :: "string \<Rightarrow> int option" where
  "parseISO s =
     (let expanded = (length s = 27 \<and> (hd s = CHR ''+'' \<or> hd s = CHR ''-''));
          negative = (expanded \<and> hd s = CHR ''-'');
          yw = (if expanded then 6 else 4);
          off = (if expanded then 1 else 0);
          r = drop (off + yw) s
      in if (length s = 24 \<or> expanded) \<and> r ! 0 = CHR ''-'' \<and> r ! 3 = CHR ''-''
            \<and> r ! 6 = CHR ''T'' \<and> r ! 9 = CHR '':'' \<and> r ! 12 = CHR '':''
            \<and> r ! 15 = CHR ''.'' \<and> r ! 19 = CHR ''Z''
         then
           Option.bind (digits (take yw (drop off s))) (\<lambda>y.
           Option.bind (digits (take 2 (drop 1 r))) (\<lambda>mo.
           Option.bind (digits (take 2 (drop 4 r))) (\<lambda>d.
           Option.bind (digits (take 2 (drop 7 r))) (\<lambda>h.
           Option.bind (digits (take 2 (drop 10 r))) (\<lambda>mi.
           Option.bind (digits (take 2 (drop 13 r))) (\<lambda>sec.
           Option.bind (digits (take 3 (drop 16 r))) (\<lambda>ms.
             fromFields negative y mo d h mi sec ms)))))))
         else None)"

subsection \<open>The stored document\<close>

text \<open>
  \<^verbatim>\<open>AsyncStorage\<close> keeps a string under the key \<^verbatim>\<open>"reminders"\<close>. The program only tests
  the string for emptiness and hands it to \<^verbatim>\<open>JSON.parse\<close>, so a stored string is
  represented by what these two do with it: it is empty, it is rejected by
  \<^verbatim>\<open>JSON.parse\<close>, or it parses to a value. \<^verbatim>\<open>JSON.stringify\<close> followed by
  \<^verbatim>\<open>JSON.parse\<close> yields the value written, a \<^verbatim>\<open>Date\<close> having become its
  \<^verbatim>\<open>toISOString\<close> text. The keys of a parsed object are distinct.
\<close>

datatype json =
    JNull
  | JBool bool
  | JNum int
  | JStr string
  | JArr "json list"
  | JObj "(string \<times> json) list"

datatype stored = EmptyString | Malformed | Document json

text \<open>\<^verbatim>\<open>JSON.stringify\<close> of one reminder, read back by \<^verbatim>\<open>JSON.parse\<close>.\<close>

definition stringifyReminder :: "Reminder \<Rightarrow> json" where
  "stringifyReminder r =
     JObj [(''id'', JStr (id' r)), (''name'', JStr (name r)),
           (''time'', JStr (toISOString (time r))), (''repeatCount'', JNum (repeatCount r))]"

definition stringify :: "Reminder list \<Rightarrow> stored" where
  "stringify rs = Document (JArr (map stringifyReminder rs))"

subsection \<open>\<^verbatim>\<open>loadReminders\<close>\<close>

text \<open>
  \<^verbatim>\<open>r.time\<close> for a parsed value \<open>r\<close> other than \<^verbatim>\<open>null\<close>: the property of an object,
  \<^verbatim>\<open>undefined\<close> (\<open>None\<close>) when it is missing or \<open>r\<close> is not an object.
\<close>

definition getProp :: "json \<Rightarrow> string \<Rightarrow> json option" where
  "getProp r k = (case r of JObj ps \<Rightarrow> map_of ps k | _ \<Rightarrow> None)"

datatype exn = ReadError | SyntaxError | TypeError

text \<open>
  The conversion of a parsed object or array to a primitive value, which \<^verbatim>\<open>new Date\<close>
  asks for. A parsed object inherits \<^verbatim>\<open>valueOf\<close> and \<^verbatim>\<open>toString\<close>, unless it has a
  property of that name, which is then not callable. The inherited \<^verbatim>\<open>valueOf\<close> returns
  the object itself, so the outcome lies with \<^verbatim>\<open>toString\<close>: an object with a property
  \<^verbatim>\<open>toString\<close> has no way to a primitive and the conversion throws a \<^verbatim>\<open>TypeError\<close>;
  an array joins the texts of its elements (\<^verbatim>\<open>null\<close> counting as empty) and throws
  when one of them does.
\<close>

fun toStringThrows :: "json \<Rightarrow> bool" where
  "toStringThrows (JObj ps) = (map_of ps ''toString'' \<noteq> None)"
| "toStringThrows (JArr xs) = (\<exists>x \<in> set xs. toStringThrows x)"
| "toStringThrows j = False"

text \<open>
  \<^verbatim>\<open>new Date(v)\<close>. \<^verbatim>\<open>undefined\<close> gives the invalid date, \<^verbatim>\<open>null\<close>, booleans and
  numbers are time values, a string in the date-time format is parsed. An object or an
  array is converted to a primitive first, which may throw. The date of any other
  string, and of an array or an object that has a text, is whatever \<open>hostDate\<close> returns
  for it: \<^verbatim>\<open>Date.parse\<close> is defined by the host outside the date-time format, and the
  text of an array or object is not computed here.
\<close>

definition newDate :: "(json \<Rightarrow> int option) \<Rightarrow> json option \<Rightarrow> exn + int option" where
  "newDate hostDate v =
     (case v of
        None \<Rightarrow> Inr None
      | Some JNull \<Rightarrow> Inr (Some 0)
      | Some (JBool b) \<Rightarrow> Inr (Some (if b then 1 else 0))
      | Some (JNum n) \<Rightarrow> Inr (TimeClip n)
      | Some (JStr s) \<Rightarrow>
          Inr (case parseISO s of Some t \<Rightarrow> TimeClip t | None \<Rightarrow> hostDate (JStr s))
      | Some j \<Rightarrow> if toStringThrows j then Inl TypeError else Inr (hostDate j))"

text \<open>
  \<^verbatim>\<open>{ ...r, time: new Date(r.time) }\<close>: reading \<^verbatim>\<open>r.time\<close> throws when \<open>r\<close> is
  \<^verbatim>\<open>null\<close>. The object is kept as the value \<open>r\<close> it copies its properties from,
  together with the date that overrides \<^verbatim>\<open>time\<close>.
\<close>

type_synonym revived = "json \<times> int option"

definition revive :: "(json \<Rightarrow> int option) \<Rightarrow> json \<Rightarrow> exn + revived" where
  "revive hostDate r =
     (if r = JNull then Inl TypeError
      else case newDate hostDate (getProp r ''time'') of
             Inl e \<Rightarrow> Inl e
           | Inr d \<Rightarrow> Inr (r, d))"

text \<open>\<^verbatim>\<open>.map(...)\<close>: the elements in order, up to the first one that throws.\<close>

fun reviveAll :: "(json \<Rightarrow> int option) \<Rightarrow> json list \<Rightarrow> exn + revived list" where
  "reviveAll hostDate [] = Inr []"
| "reviveAll hostDate (r # rs) =
     (case revive hostDate r of
        Inl e \<Rightarrow> Inl e
      | Inr x \<Rightarrow> (case reviveAll hostDate rs of Inl e \<Rightarrow> Inl e | Inr xs \<Rightarrow> Inr (x # xs)))"

text \<open>
  The body of the \<^verbatim>\<open>try\<close>: \<open>Inl\<close> is a thrown exception, \<open>Inr None\<close> a normal end
  without a call of \<^verbatim>\<open>setReminders\<close>, \<open>Inr (Some xs)\<close> the call \<^verbatim>\<open>setReminders(xs)\<close>.
  \<open>readOk\<close> tells whether \<^verbatim>\<open>AsyncStorage.getItem\<close> resolves.
\<close>

definition loadBody ::
  "(json \<Rightarrow> int option) \<Rightarrow> bool \<Rightarrow> stored option \<Rightarrow> exn + revived list option" where
  "loadBody hostDate readOk st =
     (if \<not> readOk then Inl ReadError
      else case st of
        None \<Rightarrow> Inr None
      | Some EmptyString \<Rightarrow> Inr None
      | Some Malformed \<Rightarrow> Inl SyntaxError
      | Some (Document (JArr rs)) \<Rightarrow>
          (case reviveAll hostDate rs of Inl e \<Rightarrow> Inl e | Inr xs \<Rightarrow> Inr (Some xs))
      | Some (Document _) \<Rightarrow> Inl TypeError)"

datatype loaded = SetReminders "revived list" | NotCalled | ConsoleError exn

definition loadReminders ::
  "(json \<Rightarrow> int option) \<Rightarrow> bool \<Rightarrow> stored option \<Rightarrow> loaded" where
  "loadReminders hostDate readOk st =
     (case loadBody hostDate readOk st of
        Inl e \<Rightarrow> ConsoleError e
      | Inr None \<Rightarrow> NotCalled
      | Inr (Some xs) \<Rightarrow> SetReminders xs)"

text \<open>
  The state \<^verbatim>\<open>reminders\<close> after \<^verbatim>\<open>loadReminders\<close> has run at mount time, where the
  state starts as \<^verbatim>\<open>useState<Reminder[]>([])\<close>.
\<close>

definition remindersAfterLoad :: "loaded \<Rightarrow> revived list" where
  "remindersAfterLoad l = (case l of SetReminders xs \<Rightarrow> xs | _ \<Rightarrow> [])"

text \<open>
  The reading of a revived object under \<^verbatim>\<open>interface Reminder\<close>: defined when the
  object has a string \<^verbatim>\<open>id\<close>, a string \<^verbatim>\<open>name\<close>, a number \<^verbatim>\<open>repeatCount\<close> and a valid
  date.
\<close>

definition asReminder :: "revived \<Rightarrow> Reminder option" where
  "asReminder x =
     (case (getProp (fst x) ''id'', getProp (fst x) ''name'', getProp (fst x) ''repeatCount'', snd x) of
        (Some (JStr i), Some (JStr n), Some (JNum c), Some t) \<Rightarrow>
           Some \<lparr> id' = i, name = n, time = t, repeatCount = c \<rparr>
      | _ \<Rightarrow> None)"

subsection \<open>\<^verbatim>\<open>parseInt\<close>\<close>

text \<open>
  \<^verbatim>\<open>parseInt(string)\<close> without a radix, after the standard: leading white space is
  skipped, a sign is read, \<^verbatim>\<open>0x\<close> or \<^verbatim>\<open>0X\<close> selects radix 16, the longest run of
  digits of the radix is the number and whatever follows is ignored. \<open>None\<close> is
  \<^verbatim>\<open>NaN\<close>: there was no digit.
\<close>

definition isWhiteSpace :: "char \<Rightarrow> bool" where
  "isWhiteSpace c = ((of_char c :: nat) \<in> {9, 10, 11, 12, 13, 32})"

definition radixDigit :: "char \<Rightarrow> nat option" where
  "radixDigit c =
     (let n = (of_char c :: nat)
      in if 48 \<le> n \<and> n \<le> 57 then Some (n - 48)
         else if 97 \<le> n \<and> n \<le> 122 then Some (n - 87)
         else if 65 \<le> n \<and> n \<le> 90 then Some (n - 55)
         else None)"

definition isRadixDigit :: "nat \<Rightarrow> char \<Rightarrow> bool" where
  "isRadixDigit R c = (case radixDigit c of None \<Rightarrow> False | Some d \<Rightarrow> d < R)"

fun radixValue :: "nat \<Rightarrow> nat \<Rightarrow> string \<Rightarrow> nat" where
  "radixValue R a [] = a"
| "radixValue R a (c # cs) =
     radixValue R (a * R + (case radixDigit c of None \<Rightarrow> 0 | Some d \<Rightarrow> d)) cs"

definition stripSign :: "string \<Rightarrow> int \<times> string" where
  "stripSign s =
     (case s of
        [] \<Rightarrow> (1, [])
      | c # cs \<Rightarrow> if c = CHR ''-'' then (- 1, cs) else if c = CHR ''+'' then (1, cs) else (1, s))"

definition stripPrefix :: "string \<Rightarrow> nat \<times> string" where
  "stripPrefix s =
     (case s of
        c # d # cs \<Rightarrow> if c = CHR ''0'' \<and> (d = CHR ''x'' \<or> d = CHR ''X'') then (16, cs) else (10, s)
      | _ \<Rightarrow> (10, s))"

definition parseInt :: "string \<Rightarrow> int option" where
  "parseInt str =
     (let (sign, s1) = stripSign (dropWhile isWhiteSpace str);
          (R, s2) = stripPrefix s1;
          z = takeWhile (isRadixDigit R) s2
      in if z = [] then None else Some (sign * int (radixValue R 0 z)))"

subsection \<open>The component's state and its host\<close>

datatype call = ScheduleNotification NotificationRequest | CancelAllScheduledNotifications

text \<open>
  The React state (\<^verbatim>\<open>reminders\<close>, and the form fields \<^verbatim>\<open>name\<close>, \<^verbatim>\<open>repeatCount\<close>,
  \<^verbatim>\<open>time\<close>), the item stored under \<^verbatim>\<open>"reminders"\<close> (\<open>None\<close>: no item), the calls
  received by \<^verbatim>\<open>expo-notifications\<close>, the alerts shown and the errors written to the
  console.
\<close>

record World =
  reminders :: "Reminder list"
  formName :: string
  formRepeatCount :: string
  formTime :: int
  storage :: "stored option"
  backend :: "call list"
  alerts :: "(string \<times> string) list"
  console :: "string list"

text \<open>
  What the host answers during one call of \<^verbatim>\<open>addReminder\<close> or \<^verbatim>\<open>deleteReminder\<close>:
  the time zone, the value of the \<open>k\<close>-th \<^verbatim>\<open>new Date()\<close> of the call, the string of
  \<^verbatim>\<open>Math.random().toString()\<close>, and whether \<^verbatim>\<open>AsyncStorage.setItem\<close> resolves.
  Calls of \<^verbatim>\<open>expo-notifications\<close> resolve.
\<close>

record Host =
  localTZA :: zone
  clock :: "nat \<Rightarrow> int"
  mathRandom :: string
  writeOk :: bool

subsection \<open>\<^verbatim>\<open>saveReminders\<close>\<close>

definition saveReminders :: "Host \<Rightarrow> Reminder list \<Rightarrow> World \<Rightarrow> World" where
  "saveReminders host updatedReminders w =
     (if writeOk host then w\<lparr> storage := Some (stringify updatedReminders) \<rparr>
      else w\<lparr> console := console w @ [''Error saving reminders:''] \<rparr>)"

subsection \<open>\<^verbatim>\<open>addReminder\<close>\<close>

text \<open>
  The guard \<^verbatim>\<open>!name || !repeatCount || isNaN(parseInt(repeatCount)) || parseInt(repeatCount) < 1\<close>.
\<close>

definition rejected :: "string \<Rightarrow> string \<Rightarrow> bool" where
  "rejected nm rc =
     (nm = [] \<or> rc = [] \<or> (case parseInt rc of None \<Rightarrow> True | Some n \<Rightarrow> n < 1))"

text \<open>
  The object literal \<^verbatim>\<open>newReminder\<close>. It is built only behind the guard, where
  \<^verbatim>\<open>parseInt(repeatCount)\<close> is a number; the value 0 written for \<^verbatim>\<open>NaN\<close> is never
  used by \<^verbatim>\<open>addReminder\<close>.
\<close>

definition newReminder :: "Host \<Rightarrow> World \<Rightarrow> Reminder" where
  "newReminder host w =
     \<lparr> id' = mathRandom host, name = formName w, time = formTime w,
       repeatCount = (case parseInt (formRepeatCount w) of None \<Rightarrow> 0 | Some n \<Rightarrow> n) \<rparr>"

definition addReminder :: "Host \<Rightarrow> World \<Rightarrow> World" where
  "addReminder host w =
     (if rejected (formName w) (formRepeatCount w)
      then w\<lparr> alerts := alerts w
                 @ [(''Error'', ''Please enter a valid name and repeat count (1 or more).'')] \<rparr>
      else
        let r = newReminder host w;
            updatedReminders = reminders w @ [r];
            w1 = w\<lparr> reminders := updatedReminders \<rparr>;
            w2 = saveReminders host updatedReminders w1;
            w3 = w2\<lparr> backend := backend w2
                      @ map ScheduleNotification (scheduleNotification (localTZA host) (clock host 0) r) \<rparr>
        in w3\<lparr> formName := [], formRepeatCount := [], formTime := clock host 1 \<rparr>)"

subsection \<open>\<^verbatim>\<open>deleteReminder\<close>\<close>

text \<open>
  \<^verbatim>\<open>for (const reminder of updatedReminders) await scheduleNotification(reminder)\<close>: each
  call reads the clock once, the \<open>k\<close>-th reading of the enclosing call coming first.
\<close>

fun scheduleAll :: "zone \<Rightarrow> (nat \<Rightarrow> int) \<Rightarrow> nat \<Rightarrow> Reminder list \<Rightarrow> NotificationRequest list" where
  "scheduleAll z clk k [] = []"
| "scheduleAll z clk k (r # rs) = scheduleNotification z (clk k) r @ scheduleAll z clk (Suc k) rs"

definition deleteReminder :: "Host \<Rightarrow> string \<Rightarrow> World \<Rightarrow> World" where
  "deleteReminder host ident w =
     (let updatedReminders = filter (\<lambda>r. id' r \<noteq> ident) (reminders w);
          w1 = w\<lparr> reminders := updatedReminders \<rparr>;
          w2 = saveReminders host updatedReminders w1;
          w3 = w2\<lparr> backend := backend w2 @ [CancelAllScheduledNotifications] \<rparr>
      in w3\<lparr> backend := backend w3
                 @ map ScheduleNotification (scheduleAll (localTZA host) (clock host) 0 updatedReminders) \<rparr>)"

subsection \<open>Runs of the component\<close>

text \<open>
  The user fills the form and presses "Add Reminder", or presses "Delete" on a row. A
  run starts from the freshly mounted component with nothing stored.
\<close>

datatype action = PressAdd string string int | PressDelete string

fun step :: "Host \<Rightarrow> action \<Rightarrow> World \<Rightarrow> World" where
  "step host (PressAdd nm rc t) w =
     addReminder host (w\<lparr> formName := nm, formRepeatCount := rc, formTime := t \<rparr>)"
| "step host (PressDelete ident) w = deleteReminder host ident w"

fun run :: "World \<Rightarrow> (Host \<times> action) list \<Rightarrow> World" where
  "run w [] = w"
| "run w ((host, a) # script) = run (step host a w) script"

definition mounted :: "int \<Rightarrow> World" where
  "mounted t0 =
     \<lparr> reminders = [], formName = [], formRepeatCount = [], formTime = t0,
       storage = None, backend = [], alerts = [], console = [] \<rparr>"

text \<open>The identifiers handed out along a run, in order.\<close>

fun issued :: "(Host \<times> action) list \<Rightarrow> string list" where
  "issued [] = []"
| "issued ((host, PressAdd nm rc t) # script) =
     (if rejected nm rc then issued script else mathRandom host # issued script)"
| "issued ((host, PressDelete ident) # script) = issued script"

subsection \<open>Notions of the specification\<close>

text \<open>The collection a later \<^verbatim>\<open>loadReminders\<close> would find: the elements of the stored array.\<close>

definition persisted :: "stored option \<Rightarrow> json list" where
  "persisted st = (case st of Some (Document (JArr xs)) \<Rightarrow> xs | _ \<Rightarrow> [])"


text \<open>
  Written out, for the statements below: the request issued for a reminder, the indices
  of a reminder whose occurrence is after the current instant, and the document written
  for a list of reminders.
\<close>

abbreviation requestFor :: "Reminder \<Rightarrow> NotificationRequest" where
  "requestFor r \<equiv>
     \<lparr> content = \<lparr> title = ''Reminder'', body = name r \<rparr>,
       trigger = \<lparr> type' = TIME_INTERVAL, seconds = 5400, repeats = True \<rparr> \<rparr>"

abbreviation due :: "zone \<Rightarrow> int \<Rightarrow> Reminder \<Rightarrow> int list" where
  "due z now r \<equiv>
     filter (\<lambda>i. after (fireDate (reminderTime z now r) i) now) [0..repeatCount r - 1]"

abbreviation document :: "Reminder list \<Rightarrow> stored" where
  "document rs \<equiv>
     Document (JArr (map (\<lambda>r. JObj [(''id'', JStr (id' r)), (''name'', JStr (name r)),
                                      (''time'', JStr (toISOString (time r))),
                                      (''repeatCount'', JNum (repeatCount r))]) rs))"

text \<open>
  "A base-10 integer", in the words of the specification: an optional minus sign and
  one or more decimal digits, nothing else.
\<close>

definition base10Integer :: "string \<Rightarrow> bool" where
  "base10Integer s =
     (let ds = (case s of c # cs \<Rightarrow> if c = CHR ''-'' then cs else s | [] \<Rightarrow> s)
      in ds \<noteq> [] \<and> list_all (\<lambda>c. digitVal c \<noteq> None) ds)"

definition base10Value :: "string \<Rightarrow> int" where
  "base10Value s =
     (case s of
        c # cs \<Rightarrow> if c = CHR ''-'' then - int (radixValue 10 0 cs) else int (radixValue 10 0 s)
      | [] \<Rightarrow> 0)"

text \<open>
  "Today's date combined with the reminder's hour, minute and second", in the words of
  the specification: the local day of \<open>now\<close> with the local time within the day of \<open>t\<close>.
\<close>

definition todayAt :: "zone \<Rightarrow> int \<Rightarrow> int \<Rightarrow> int" where
  "todayAt z now t = UTC z (MakeDate (Day (LocalTime z now)) (TimeWithinDay (LocalTime z t)))"

subsection \<open>Example values\<close>

text \<open>
  A host at 10:00 on 20 February 2024 (UTC) whose random number reads \<^verbatim>\<open>0.5\<close>, another
  one whose random number reads \<^verbatim>\<open>0.25\<close>, a third one whose storage refuses to write,
  and a world with two reminders of that day
  (14:00 three times, 15:00 twice) that are stored, the form being filled in for a third
  (tea at 16:00, four times).
\<close>

definition exampleHost :: Host where
  "exampleHost = \<lparr> localTZA = utcZone, clock = (\<lambda>k. 1708423200000), mathRandom = ''0.5'', writeOk = True \<rparr>"

definition otherHost :: Host where
  "otherHost = \<lparr> localTZA = utcZone, clock = (\<lambda>k. 1708423200000), mathRandom = ''0.25'', writeOk = True \<rparr>"

definition failingHost :: Host where
  "failingHost =
     \<lparr> localTZA = utcZone, clock = (\<lambda>k. 1708423200000), mathRandom = ''0.75'', writeOk = False \<rparr>"

definition pills :: Reminder where
  "pills = \<lparr> id' = ''0.1'', name = ''pills'', time = 1708437600000, repeatCount = 3 \<rparr>"

definition water :: Reminder where
  "water = \<lparr> id' = ''0.2'', name = ''water'', time = 1708441200000, repeatCount = 2 \<rparr>"

definition tea :: Reminder where
  "tea = \<lparr> id' = ''0.5'', name = ''tea'', time = 1708444800000, repeatCount = 4 \<rparr>"

definition exampleWorld :: World where
  "exampleWorld =
     \<lparr> reminders = [pills, water], formName = ''tea'', formRepeatCount = ''4'',
       formTime = 1708444800000, storage = Some (stringify [pills, water]), backend = [],
       alerts = [], console = [] \<rparr>"

section \<open>Properties of the scheduler\<close>

subsection \<open>The loop\<close>

lemma scheduleLoop_filter:
  "scheduleLoop rt now r i =
     map (\<lambda>_. request r) (filter (\<lambda>j. after (fireDate rt j) now) [i..repeatCount r - 1])"
proof (induction rt now r i rule: scheduleLoop.induct)
  case (1 rt now r i)
  show ?case
  proof (cases "i < repeatCount r")
    case True
    then have u: "[i..repeatCount r - 1] = i # [i + 1..repeatCount r - 1]"
      by (simp add: upto_rec1)
    show ?thesis
      using True "1.IH" by (subst scheduleLoop.simps) (simp add: u)
  next
    case False
    then show ?thesis by (subst scheduleLoop.simps) simp
  qed
qed

lemma length_filter_upto:
  "length (filter P [i..j]) = card {k. i \<le> k \<and> k \<le> j \<and> P k}"
proof -
  have d: "distinct (filter P [i..j])" by simp
  have s: "set (filter P [i..j]) = {k. i \<le> k \<and> k \<le> j \<and> P k}" by auto
  show ?thesis using distinct_card [OF d] by (simp only: s)
qed

lemma after_fireDate:
  "\<bar>b + i * 3600000\<bar> \<le> 8640000000000000 \<Longrightarrow>
   after (fireDate (Some b) i) now \<longleftrightarrow> b + i * 3600000 > now"
  by (simp add: after_def fireDate_def TimeClip_def mult.commute)

text \<open>
  What the loop issues, for every reminder and every current instant: as many requests as
  there are indices \<open>i\<close> from 0 to \<open>repeatCount - 1\<close> whose occurrence time (the base time
  \<open>reminderTime\<close> plus \<open>i\<close> hours, as a date) is strictly after the current instant; every
  request carries the title "Reminder" and the reminder's name as body; the other indices
  issue nothing.
\<close>

lemma scheduleNotification_requests:
  "scheduleNotification z now r =
     replicate
       (card {i. 0 \<le> i \<and> i < repeatCount r \<and> after (fireDate (reminderTime z now r) i) now})
       (request r)
   \<and> title (content (request r)) = ''Reminder''
   \<and> body (content (request r)) = name r"
proof -
  have "{k. 0 \<le> k \<and> k \<le> repeatCount r - 1 \<and> after (fireDate (reminderTime z now r) k) now}
      = {i. 0 \<le> i \<and> i < repeatCount r \<and> after (fireDate (reminderTime z now r) i) now}"
    by auto
  then show ?thesis
    by (simp add: scheduleNotification_def scheduleLoop_filter map_replicate_const
        length_filter_upto request_def)
qed

text \<open>
  The example of the specification: a reminder at 14:00 with three occurrences, looked at
  at 15:30 of the same day (20 February 2024, UTC), has one occurrence left.
\<close>

lemma scheduleNotification_requests_example:
  "card {i. 0 \<le> i \<and> i < 3 \<and>
            after (fireDate (reminderTime utcZone 1708443000000
               \<lparr> id' = ''0.1'', name = ''pills'', time = 1708437600000, repeatCount = 3 \<rparr>) i)
              1708443000000} = 1"
proof -
  have "length (scheduleNotification utcZone 1708443000000
          \<lparr> id' = ''0.1'', name = ''pills'', time = 1708437600000, repeatCount = 3 \<rparr>) = 1"
    by code_simp
  then show ?thesis
    using scheduleNotification_requests [of utcZone 1708443000000
        "\<lparr> id' = ''0.1'', name = ''pills'', time = 1708437600000, repeatCount = 3 \<rparr>"]
    by simp
qed

text \<open>
  C1. The claim: a request issued for index \<open>i\<close> fires exactly at the computed occurrence
  time and only once. The program: at 10:00 on 20 February 2024 (UTC) a reminder for
  14:00 of that day with one occurrence has its occurrence at 14:00, after the current
  instant, and the one request issued carries an interval trigger of 5400 seconds that
  repeats; the occurrence time is not part of the request.
\<close>

theorem scheduleNotification_trigger_at_1400:
  "fireDate (reminderTime utcZone 1708423200000
       \<lparr> id' = ''0.1'', name = ''pills'', time = 1708437600000, repeatCount = 1 \<rparr>) 0
     = Some 1708437600000
   \<and> scheduleNotification utcZone 1708423200000
       \<lparr> id' = ''0.1'', name = ''pills'', time = 1708437600000, repeatCount = 1 \<rparr>
     = [\<lparr> content = \<lparr> title = ''Reminder'', body = ''pills'' \<rparr>,
          trigger = \<lparr> type' = TIME_INTERVAL, seconds = 5400, repeats = True \<rparr> \<rparr>]"
  by code_simp

text \<open>
  C3. The claim: the base time is today's date with the reminder's time of day, whatever
  the date stored with the reminder. The program: \<^verbatim>\<open>setDate(now.getDate())\<close> replaces the
  day of the month only. A reminder created on 15 January 2024 at 14:00, scheduled at
  10:00 on 20 February 2024 (UTC), gets the base time 20 January 2024 14:00 and not
  20 February 2024 14:00; all three of its occurrences are then in the past and nothing
  is scheduled.
\<close>

theorem reminderTime_previous_month:
  "reminderTime utcZone 1708423200000
       \<lparr> id' = ''0.1'', name = ''pills'', time = 1705327200000, repeatCount = 3 \<rparr>
     = Some 1705759200000
   \<and> todayAt utcZone 1708423200000 1705327200000 = 1708437600000
   \<and> scheduleNotification utcZone 1708423200000
       \<lparr> id' = ''0.1'', name = ''pills'', time = 1705327200000, repeatCount = 3 \<rparr> = []"
  by code_simp

text \<open>
  C2. The claim: the number of requests is the number of indices \<open>i\<close> from 0 to
  \<open>repeatCount - 1\<close> for which today's date at the reminder's time of day, plus \<open>i\<close>
  hours, is strictly after the current instant. The program counts from its own base
  time (lemma \<open>scheduleNotification_requests\<close>), which is today's date only within the
  month of the stored time (C3). For the reminder created on 15 January 2024 at 14:00
  with three occurrences, at 10:00 on 20 February 2024 (UTC), the three indices 0, 1, 2
  qualify and no request is issued.
\<close>

theorem scheduleNotification_count_previous_month:
  "filter (\<lambda>i. todayAt utcZone 1708423200000 1705327200000 + i * 3600000 > 1708423200000) [0..3 - 1]
     = [0, 1, 2]
   \<and> length (scheduleNotification utcZone 1708423200000
       \<lparr> id' = ''0.1'', name = ''pills'', time = 1705327200000, repeatCount = 3 \<rparr>) = 0"
  by code_simp

section \<open>Properties of \<^verbatim>\<open>addReminder\<close> and \<^verbatim>\<open>deleteReminder\<close>\<close>

subsection \<open>What each call changes\<close>

lemma reminders_saveReminders [simp]: "reminders (saveReminders host rs w) = reminders w"
  by (simp add: saveReminders_def)
lemma backend_saveReminders [simp]: "backend (saveReminders host rs w) = backend w"
  by (simp add: saveReminders_def)
lemma alerts_saveReminders [simp]: "alerts (saveReminders host rs w) = alerts w"
  by (simp add: saveReminders_def)
lemma storage_saveReminders:
  "storage (saveReminders host rs w) = (if writeOk host then Some (stringify rs) else storage w)"
  by (simp add: saveReminders_def)

lemma persisted_stringify [simp]: "persisted (Some (stringify rs)) = map stringifyReminder rs"
  by (simp add: persisted_def stringify_def)

lemma scheduleAll_concat:
  "scheduleAll z clk k rs =
     concat (map (\<lambda>(j, r). scheduleNotification z (clk j) r) (enumerate k rs))"
  by (induction rs arbitrary: k) simp_all





lemma alerts_addReminder:
  "\<not> rejected (formName w) (formRepeatCount w) \<Longrightarrow> alerts (addReminder host w) = alerts w"
  by (simp add: addReminder_def Let_def)

lemma reminders_deleteReminder:
  "reminders (deleteReminder host i w) = filter (\<lambda>r. id' r \<noteq> i) (reminders w)"
  by (simp add: deleteReminder_def Let_def)

lemma backend_deleteReminder:
  "backend (deleteReminder host i w) = backend w @ CancelAllScheduledNotifications
     # map ScheduleNotification
         (scheduleAll (localTZA host) (clock host) 0 (filter (\<lambda>r. id' r \<noteq> i) (reminders w)))"
  by (simp add: deleteReminder_def Let_def)

lemma storage_deleteReminder:
  "storage (deleteReminder host i w) =
     (if writeOk host then Some (stringify (filter (\<lambda>r. id' r \<noteq> i) (reminders w)))
      else storage w)"
  by (simp add: deleteReminder_def Let_def storage_saveReminders)

lemma filter_absent: "i \<notin> set (map id' rs) \<Longrightarrow> filter (\<lambda>r. id' r \<noteq> i) rs = rs"
  by (induction rs) auto



lemma not_rejected:
  "\<not> rejected nm rc \<longleftrightarrow> nm \<noteq> [] \<and> (\<exists>n. parseInt rc = Some n \<and> 1 \<le> n)"
proof -
  have "parseInt [] = None" by (simp add: parseInt_def stripSign_def stripPrefix_def)
  then show ?thesis by (cases "parseInt rc") (auto simp: rejected_def)
qed

subsection \<open>Validation\<close>

lemma digitVal_range:
  "digitVal c \<noteq> None \<Longrightarrow> 48 \<le> (of_char c :: nat) \<and> (of_char c :: nat) \<le> 57"
  by (cases "48 \<le> (of_char c :: nat) \<and> (of_char c :: nat) \<le> 57")
     (simp_all add: digitVal_def Let_def)

lemma digit_char:
  assumes "digitVal c \<noteq> None"
  shows "\<not> isWhiteSpace c" and "c \<noteq> CHR ''-''" and "c \<noteq> CHR ''+''"
    and "c \<noteq> CHR ''x''" and "c \<noteq> CHR ''X''" and "isRadixDigit 10 c"
proof -
  from digitVal_range [OF assms]
  have r: "48 \<le> (of_char c :: nat)" "(of_char c :: nat) \<le> 57" by simp_all
  show "\<not> isWhiteSpace c" using r by (auto simp: isWhiteSpace_def)
  show "c \<noteq> CHR ''-''" using r by auto
  show "c \<noteq> CHR ''+''" using r by auto
  show "c \<noteq> CHR ''x''" using r by auto
  show "c \<noteq> CHR ''X''" using r by auto
  show "isRadixDigit 10 c" using r by (auto simp: isRadixDigit_def radixDigit_def Let_def)
qed

lemma takeWhile_digits:
  "list_all (\<lambda>c. digitVal c \<noteq> None) ds \<Longrightarrow> takeWhile (isRadixDigit 10) ds = ds"
  by (induction ds) (simp_all add: digit_char del: not_None_eq)

lemma stripPrefix_digits:
  assumes "list_all (\<lambda>c. digitVal c \<noteq> None) ds"
  shows "stripPrefix ds = (10, ds)"
proof (cases ds)
  case Nil
  then show ?thesis by (simp add: stripPrefix_def)
next
  case (Cons c cs)
  show ?thesis
  proof (cases cs)
    case Nil
    then show ?thesis using Cons by (simp add: stripPrefix_def)
  next
    case (Cons d es)
    with assms \<open>ds = c # cs\<close> have "digitVal d \<noteq> None" by simp
    then have "d \<noteq> CHR ''x''" "d \<noteq> CHR ''X''" by (rule digit_char)+
    then show ?thesis using Cons \<open>ds = c # cs\<close> by (simp add: stripPrefix_def)
  qed
qed

lemma parseInt_digits:
  assumes "ds \<noteq> []" and "list_all (\<lambda>c. digitVal c \<noteq> None) ds"
  shows "parseInt ds = Some (int (radixValue 10 0 ds))"
    and "parseInt (CHR ''-'' # ds) = Some (- int (radixValue 10 0 ds))"
proof -
  obtain c cs where ds: "ds = c # cs" using assms(1) by (cases ds) auto
  with assms(2) have c: "digitVal c \<noteq> None" by simp
  have dw: "dropWhile isWhiteSpace ds = ds" using digit_char(1) [OF c] by (simp add: ds)
  have ss: "stripSign ds = (1, ds)"
    using digit_char(2,3) [OF c] by (simp add: ds stripSign_def)
  show "parseInt ds = Some (int (radixValue 10 0 ds))"
    using assms by (simp add: parseInt_def dw ss stripPrefix_digits takeWhile_digits)
  have m: "\<not> isWhiteSpace (CHR ''-'')" by (simp add: isWhiteSpace_def)
  show "parseInt (CHR ''-'' # ds) = Some (- int (radixValue 10 0 ds))"
    using assms by (simp add: parseInt_def m stripSign_def stripPrefix_digits takeWhile_digits)
qed

lemma parseInt_base10: "base10Integer s \<Longrightarrow> parseInt s = Some (base10Value s)"
proof (cases s)
  case Nil
  then show "base10Integer s \<Longrightarrow> ?thesis" by (simp add: base10Integer_def)
next
  case (Cons c cs)
  assume b: "base10Integer s"
  show ?thesis
  proof (cases "c = CHR ''-''")
    case True
    with b Cons have "cs \<noteq> []" "list_all (\<lambda>c. digitVal c \<noteq> None) cs"
      by (simp_all add: base10Integer_def)
    from parseInt_digits(2) [OF this] show ?thesis
      using True Cons by (simp add: base10Value_def)
  next
    case False
    with b Cons have "s \<noteq> []" "list_all (\<lambda>c. digitVal c \<noteq> None) s"
      by (simp_all add: base10Integer_def)
    from parseInt_digits(1) [OF this] show ?thesis
      using False Cons by (simp add: base10Value_def)
  qed
qed

lemma addReminder_rejected:
  "rejected (formName w) (formRepeatCount w) \<Longrightarrow>
   addReminder host w =
     w\<lparr> alerts := alerts w @ [(''Error'', ''Please enter a valid name and repeat count (1 or more).'')] \<rparr>"
  by (simp add: addReminder_def)

text \<open>
  C4, as the program has it. \<^verbatim>\<open>addReminder\<close> accepts its input exactly when the name is
  not empty and \<^verbatim>\<open>parseInt\<close> of the repeat count is a number that is at least 1. Every
  other input (an empty name, a repeat count that is empty, has no leading digit, or
  reads as 0 or less) gets the alert, and then the collection in memory, the stored
  collection and the backend are as before. A base-10 integer is read by \<^verbatim>\<open>parseInt\<close>
  as its value, so every base-10 integer from 1 on is accepted; \<^verbatim>\<open>parseInt\<close> also
  reads the leading digits of a longer text, so the accepted inputs are more than the
  base-10 integers.
\<close>

theorem addReminder_validation:
  "(alerts (addReminder host w) = alerts w \<longleftrightarrow>
      formName w \<noteq> [] \<and> (\<exists>n. parseInt (formRepeatCount w) = Some n \<and> 1 \<le> n))
   \<and> (\<not> (formName w \<noteq> [] \<and> (\<exists>n. parseInt (formRepeatCount w) = Some n \<and> 1 \<le> n)) \<longrightarrow>
        alerts (addReminder host w) =
          alerts w @ [(''Error'', ''Please enter a valid name and repeat count (1 or more).'')]
        \<and> reminders (addReminder host w) = reminders w
        \<and> storage (addReminder host w) = storage w
        \<and> backend (addReminder host w) = backend w)
   \<and> (base10Integer (formRepeatCount w) \<longrightarrow>
        parseInt (formRepeatCount w) = Some (base10Value (formRepeatCount w)))"
proof -
  let ?ok = "formName w \<noteq> [] \<and> (\<exists>n. parseInt (formRepeatCount w) = Some n \<and> 1 \<le> n)"
  have rj: "rejected (formName w) (formRepeatCount w) \<longleftrightarrow> \<not> ?ok"
    using not_rejected [of "formName w" "formRepeatCount w"] by blast
  have a: "alerts (addReminder host w) = alerts w \<longleftrightarrow> ?ok"
  proof (cases "rejected (formName w) (formRepeatCount w)")
    case True
    then show ?thesis using rj by (simp add: addReminder_rejected)
  next
    case False
    then show ?thesis using rj by (simp add: alerts_addReminder)
  qed
  have b: "\<not> ?ok \<longrightarrow>
        alerts (addReminder host w) =
          alerts w @ [(''Error'', ''Please enter a valid name and repeat count (1 or more).'')]
        \<and> reminders (addReminder host w) = reminders w
        \<and> storage (addReminder host w) = storage w
        \<and> backend (addReminder host w) = backend w"
    using rj by (simp add: addReminder_rejected)
  have c: "base10Integer (formRepeatCount w) \<longrightarrow>
        parseInt (formRepeatCount w) = Some (base10Value (formRepeatCount w))"
    by (simp add: parseInt_base10)
  from a b c show ?thesis by blast
qed

theorem addReminder_validation_witness:
  "base10Integer ''0'' \<and> parseInt ''0'' = Some 0
   \<and> alerts (addReminder exampleHost (exampleWorld\<lparr> formRepeatCount := ''0'' \<rparr>))
       = [(''Error'', ''Please enter a valid name and repeat count (1 or more).'')]
   \<and> reminders (addReminder exampleHost (exampleWorld\<lparr> formRepeatCount := ''0'' \<rparr>)) = [pills, water]
   \<and> backend (addReminder exampleHost (exampleWorld\<lparr> formRepeatCount := ''0'' \<rparr>)) = []"
proof -
  have b: "base10Integer ''0''" by code_simp
  have v: "base10Value ''0'' = 0" by code_simp
  have w: "formRepeatCount (exampleWorld\<lparr> formRepeatCount := ''0'' \<rparr>) = ''0''" by simp
  have p: "parseInt ''0'' = Some 0"
    using addReminder_validation [of exampleHost "exampleWorld\<lparr> formRepeatCount := ''0'' \<rparr>"] b v
    by (simp only: w)
  have n: "\<not> (formName (exampleWorld\<lparr> formRepeatCount := ''0'' \<rparr>) \<noteq> []
      \<and> (\<exists>n. parseInt (formRepeatCount (exampleWorld\<lparr> formRepeatCount := ''0'' \<rparr>)) = Some n \<and> 1 \<le> n))"
    by (simp only: w p) simp
  show ?thesis
    using addReminder_validation [of exampleHost "exampleWorld\<lparr> formRepeatCount := ''0'' \<rparr>"] n b p
    by (simp add: exampleWorld_def)
qed

text \<open>
  C4, as the specification states it, fails in the direction "accepted only if the
  repeat count is a base-10 integer": the input \<^verbatim>\<open>2.5\<close> is not a base-10 integer, and
  it is accepted without alert, with repeat count 2.
\<close>

theorem addReminder_accepts_fraction:
  "\<not> base10Integer ''2.5''
   \<and> alerts (addReminder exampleHost (exampleWorld\<lparr> formRepeatCount := ''2.5'' \<rparr>)) = []
   \<and> map repeatCount (reminders (addReminder exampleHost (exampleWorld\<lparr> formRepeatCount := ''2.5'' \<rparr>)))
       = [3, 2, 2]"
  by code_simp

subsection \<open>Requests and documents written out\<close>

lemma scheduleNotification_due:
  "scheduleNotification z now r = map (\<lambda>i. requestFor r) (due z now r)"
  by (simp add: scheduleNotification_def scheduleLoop_filter request_def)

lemma stringify_document: "stringify rs = document rs"
  by (simp add: stringify_def stringifyReminder_def)

lemma scheduleAll_due:
  "scheduleAll z clk k rs =
     concat (map (\<lambda>(j, r). map (\<lambda>i. requestFor r) (due z (clk j) r)) (enumerate k rs))"
  by (induction rs arbitrary: k) (simp_all add: scheduleNotification_due)


lemma console_deleteReminder:
  "console (deleteReminder host i w) =
     (if writeOk host then console w else console w @ [''Error saving reminders:''])"
  by (simp add: deleteReminder_def Let_def saveReminders_def)


lemma pills_document:
  "JObj [(''id'', JStr (id' pills)), (''name'', JStr (name pills)),
         (''time'', JStr (toISOString (time pills))), (''repeatCount'', JNum (repeatCount pills))]
   = JObj [(''id'', JStr ''0.1''), (''name'', JStr ''pills''),
           (''time'', JStr ''2024-02-20T14:00:00.000Z''), (''repeatCount'', JNum 3)]"
  by code_simp

lemma water_document:
  "JObj [(''id'', JStr (id' water)), (''name'', JStr (name water)),
         (''time'', JStr (toISOString (time water))), (''repeatCount'', JNum (repeatCount water))]
   = JObj [(''id'', JStr ''0.2''), (''name'', JStr ''water''),
           (''time'', JStr ''2024-02-20T15:00:00.000Z''), (''repeatCount'', JNum 2)]"
  by code_simp

lemma tea_document:
  "JObj [(''id'', JStr (id' tea)), (''name'', JStr (name tea)),
         (''time'', JStr (toISOString (time tea))), (''repeatCount'', JNum (repeatCount tea))]
   = JObj [(''id'', JStr ''0.5''), (''name'', JStr ''tea''),
           (''time'', JStr ''2024-02-20T16:00:00.000Z''), (''repeatCount'', JNum 4)]"
  by code_simp

lemmas example_documents = pills_document water_document tea_document

lemma pills_due: "due utcZone 1708423200000 pills = [0, 1, 2]"
  by code_simp

lemma water_due: "due utcZone 1708423200000 water = [0, 1]"
  by code_simp

lemma tea_due: "due utcZone 1708423200000 tea = [0, 1, 2, 3]"
  by code_simp

lemmas example_due = pills_due water_due tea_due

lemma example_host:
  "localTZA exampleHost = utcZone" "clock exampleHost k = 1708423200000"
  "mathRandom exampleHost = ''0.5''" "writeOk exampleHost"
  by (simp_all add: exampleHost_def)

lemma example_world:
  "reminders exampleWorld = [pills, water]" "backend exampleWorld = []"
  "formName exampleWorld = ''tea''" "formRepeatCount exampleWorld = ''4''"
  "formTime exampleWorld = 1708444800000"
  by (simp_all add: exampleWorld_def)

subsection \<open>Adding\<close>




subsection \<open>Deleting\<close>




text \<open>
  C10, as the program has it. For an identifier that is not in the collection,
  \<^verbatim>\<open>deleteReminder\<close> leaves the list in memory as it is and still writes it: when
  the write succeeds the stored document is the list in memory, so the stored collection
  is unchanged exactly when it held that list already; when the write fails the stored
  item stays as it was. The backend still receives the cancellation of everything
  followed by the requests of every reminder of the unchanged collection.
\<close>

theorem deleteReminder_absent:
  assumes a: "i \<notin> set (map id' (reminders w))"
  shows "reminders (deleteReminder host i w) = reminders w
    \<and> (writeOk host \<longrightarrow> storage (deleteReminder host i w) = Some (document (reminders w)))
    \<and> (\<not> writeOk host \<longrightarrow> storage (deleteReminder host i w) = storage w)
    \<and> (persisted (storage w) = persisted (Some (document (reminders w))) \<longrightarrow>
         persisted (storage (deleteReminder host i w)) = persisted (storage w))
    \<and> backend (deleteReminder host i w) = backend w @ CancelAllScheduledNotifications
         # map ScheduleNotification
             (concat (map (\<lambda>(k, r). map (\<lambda>j. requestFor r) (due (localTZA host) (clock host k) r))
                          (enumerate 0 (reminders w))))"
proof -
  have f: "filter (\<lambda>r. id' r \<noteq> i) (reminders w) = reminders w"
    using a by (rule filter_absent)
  have r: "reminders (deleteReminder host i w) = reminders w"
    by (simp only: reminders_deleteReminder f)
  have s: "writeOk host \<longrightarrow> storage (deleteReminder host i w) = Some (document (reminders w))"
    by (simp only: storage_deleteReminder f stringify_document) simp
  have n: "\<not> writeOk host \<longrightarrow> storage (deleteReminder host i w) = storage w"
    by (simp add: storage_deleteReminder)
  have m: "persisted (storage w) = persisted (Some (document (reminders w))) \<longrightarrow>
         persisted (storage (deleteReminder host i w)) = persisted (storage w)"
    using s n by (cases "writeOk host") simp_all
  have b: "backend (deleteReminder host i w) = backend w @ CancelAllScheduledNotifications
         # map ScheduleNotification
             (concat (map (\<lambda>(k, r). map (\<lambda>j. requestFor r) (due (localTZA host) (clock host k) r))
                          (enumerate 0 (reminders w))))"
    by (simp only: backend_deleteReminder f scheduleAll_due)
  from r s n m b show ?thesis by blast
qed

theorem deleteReminder_absent_witness:
  "''0.9'' \<notin> set (map id' (reminders exampleWorld))
   \<and> reminders (deleteReminder exampleHost ''0.9'' exampleWorld) = [pills, water]
   \<and> storage (deleteReminder exampleHost ''0.9'' exampleWorld) =
       Some (Document (JArr
         [JObj [(''id'', JStr ''0.1''), (''name'', JStr ''pills''),
                (''time'', JStr ''2024-02-20T14:00:00.000Z''), (''repeatCount'', JNum 3)],
          JObj [(''id'', JStr ''0.2''), (''name'', JStr ''water''),
                (''time'', JStr ''2024-02-20T15:00:00.000Z''), (''repeatCount'', JNum 2)]]))
   \<and> persisted (storage (deleteReminder exampleHost ''0.9'' exampleWorld))
       = persisted (storage exampleWorld)
   \<and> backend (deleteReminder exampleHost ''0.9'' exampleWorld) =
       [CancelAllScheduledNotifications,
        ScheduleNotification \<lparr> content = \<lparr> title = ''Reminder'', body = ''pills'' \<rparr>,
           trigger = \<lparr> type' = TIME_INTERVAL, seconds = 5400, repeats = True \<rparr> \<rparr>,
        ScheduleNotification \<lparr> content = \<lparr> title = ''Reminder'', body = ''pills'' \<rparr>,
           trigger = \<lparr> type' = TIME_INTERVAL, seconds = 5400, repeats = True \<rparr> \<rparr>,
        ScheduleNotification \<lparr> content = \<lparr> title = ''Reminder'', body = ''pills'' \<rparr>,
           trigger = \<lparr> type' = TIME_INTERVAL, seconds = 5400, repeats = True \<rparr> \<rparr>,
        ScheduleNotification \<lparr> content = \<lparr> title = ''Reminder'', body = ''water'' \<rparr>,
           trigger = \<lparr> type' = TIME_INTERVAL, seconds = 5400, repeats = True \<rparr> \<rparr>,
        ScheduleNotification \<lparr> content = \<lparr> title = ''Reminder'', body = ''water'' \<rparr>,
           trigger = \<lparr> type' = TIME_INTERVAL, seconds = 5400, repeats = True \<rparr> \<rparr>]"
proof -
  have a: "''0.9'' \<notin> set (map id' (reminders exampleWorld))"
    by (simp add: example_world pills_def water_def)
  note T = deleteReminder_absent [OF a, of exampleHost]
  have r: "reminders (deleteReminder exampleHost ''0.9'' exampleWorld) = [pills, water]"
    using T by (simp add: example_world)
  have s: "storage (deleteReminder exampleHost ''0.9'' exampleWorld)
      = Some (document [pills, water])"
    using T example_host(4) by (simp add: example_world)
  have m: "persisted (storage exampleWorld) = persisted (Some (document (reminders exampleWorld)))"
    by (simp add: exampleWorld_def stringify_document)
  have q: "persisted (storage (deleteReminder exampleHost ''0.9'' exampleWorld))
       = persisted (storage exampleWorld)"
    using T m by blast
  have e: "concat (map (\<lambda>(k, r). map (\<lambda>j. requestFor r)
                (due (localTZA exampleHost) (clock exampleHost k) r))
                (enumerate 0 [pills, water]))
      = map (\<lambda>j. requestFor pills) [0, 1, 2 :: int] @ map (\<lambda>j. requestFor water) [0, 1 :: int]"
    by (simp add: example_host example_due)
  have "backend (deleteReminder exampleHost ''0.9'' exampleWorld)
      = backend exampleWorld @ CancelAllScheduledNotifications
         # map ScheduleNotification
             (concat (map (\<lambda>(k, r). map (\<lambda>j. requestFor r)
                (due (localTZA exampleHost) (clock exampleHost k) r))
                (enumerate 0 (reminders exampleWorld))))"
    using T by blast
  then have b: "backend (deleteReminder exampleHost ''0.9'' exampleWorld)
      = CancelAllScheduledNotifications
         # map ScheduleNotification
             (map (\<lambda>j. requestFor pills) [0, 1, 2 :: int] @ map (\<lambda>j. requestFor water) [0, 1 :: int])"
    by (simp only: example_world e append_Nil)
  have n: "requestFor pills = \<lparr> content = \<lparr> title = ''Reminder'', body = ''pills'' \<rparr>,
           trigger = \<lparr> type' = TIME_INTERVAL, seconds = 5400, repeats = True \<rparr> \<rparr>"
    "requestFor water = \<lparr> content = \<lparr> title = ''Reminder'', body = ''water'' \<rparr>,
           trigger = \<lparr> type' = TIME_INTERVAL, seconds = 5400, repeats = True \<rparr> \<rparr>"
    by (simp_all add: pills_def water_def)
  have s': "storage (deleteReminder exampleHost ''0.9'' exampleWorld) =
       Some (Document (JArr
         [JObj [(''id'', JStr ''0.1''), (''name'', JStr ''pills''),
                (''time'', JStr ''2024-02-20T14:00:00.000Z''), (''repeatCount'', JNum 3)],
          JObj [(''id'', JStr ''0.2''), (''name'', JStr ''water''),
                (''time'', JStr ''2024-02-20T15:00:00.000Z''), (''repeatCount'', JNum 2)]]))"
    by (simp only: s list.map example_documents)
  have b': "backend (deleteReminder exampleHost ''0.9'' exampleWorld) =
       [CancelAllScheduledNotifications,
        ScheduleNotification \<lparr> content = \<lparr> title = ''Reminder'', body = ''pills'' \<rparr>,
           trigger = \<lparr> type' = TIME_INTERVAL, seconds = 5400, repeats = True \<rparr> \<rparr>,
        ScheduleNotification \<lparr> content = \<lparr> title = ''Reminder'', body = ''pills'' \<rparr>,
           trigger = \<lparr> type' = TIME_INTERVAL, seconds = 5400, repeats = True \<rparr> \<rparr>,
        ScheduleNotification \<lparr> content = \<lparr> title = ''Reminder'', body = ''pills'' \<rparr>,
           trigger = \<lparr> type' = TIME_INTERVAL, seconds = 5400, repeats = True \<rparr> \<rparr>,
        ScheduleNotification \<lparr> content = \<lparr> title = ''Reminder'', body = ''water'' \<rparr>,
           trigger = \<lparr> type' = TIME_INTERVAL, seconds = 5400, repeats = True \<rparr> \<rparr>,
        ScheduleNotification \<lparr> content = \<lparr> title = ''Reminder'', body = ''water'' \<rparr>,
           trigger = \<lparr> type' = TIME_INTERVAL, seconds = 5400, repeats = True \<rparr> \<rparr>]"
    by (simp only: b list.map append.simps n)
  from a r s' q b' show ?thesis by blast
qed

text \<open>
  C10, as the specification states it, fails in "leaves the persisted collection
  unchanged": after an addition whose write failed, the stored collection is empty while
  the list in memory has one reminder, and deleting an absent identifier stores that
  reminder.
\<close>

theorem deleteReminder_absent_rewrites_store:
  "''0.9'' \<notin> set (map id' (reminders (run (mounted 1708423200000)
      [(failingHost, PressAdd ''pills'' ''3'' 1708437600000)])))
   \<and> length (persisted (storage (run (mounted 1708423200000)
      [(failingHost, PressAdd ''pills'' ''3'' 1708437600000)]))) = 0
   \<and> length (persisted (storage (deleteReminder exampleHost ''0.9'' (run (mounted 1708423200000)
      [(failingHost, PressAdd ''pills'' ''3'' 1708437600000)])))) = 1"
  by code_simp

subsection \<open>Identifiers along a run\<close>

lemma step_rejected:
  "rejected nm rc \<Longrightarrow> reminders (step host (PressAdd nm rc t) w) = reminders w"
  by (simp add: addReminder_def)

lemma step_accepted:
  "\<not> rejected nm rc \<Longrightarrow>
   map id' (reminders (step host (PressAdd nm rc t) w)) = map id' (reminders w) @ [mathRandom host]"
  by (simp add: addReminder_def Let_def newReminder_def)

lemma step_ids:
  "map id' (reminders (step host a w)) =
     (case a of
        PressAdd nm rc t \<Rightarrow>
          if rejected nm rc then map id' (reminders w) else map id' (reminders w) @ [mathRandom host]
      | PressDelete i \<Rightarrow> filter (\<lambda>x. x \<noteq> i) (map id' (reminders w)))"
proof (cases a)
  case (PressAdd nm rc t)
  show ?thesis
  proof (cases "rejected nm rc")
    case True
    then show ?thesis using PressAdd by (simp add: step_rejected del: step.simps)
  next
    case False
    then show ?thesis using PressAdd by (simp add: step_accepted del: step.simps)
  qed
next
  case (PressDelete i)
  then show ?thesis by (simp add: reminders_deleteReminder filter_map comp_def)
qed

lemma issued_step:
  "issued ((host, a) # script) =
     (case a of PressAdd nm rc t \<Rightarrow> if rejected nm rc then [] else [mathRandom host]
              | PressDelete i \<Rightarrow> []) @ issued script"
  by (cases a) simp_all

lemma run_ids:
  "distinct (map id' (reminders w)) \<Longrightarrow> distinct (issued script) \<Longrightarrow>
   set (map id' (reminders w)) \<inter> set (issued script) = {} \<Longrightarrow>
   distinct (map id' (reminders (run w script)))
   \<and> set (map id' (reminders (run w script))) \<subseteq> set (map id' (reminders w)) \<union> set (issued script)"
proof (induction script arbitrary: w)
  case Nil
  then show ?case by simp
next
  case (Cons x script)
  obtain host a where x: "x = (host, a)" by (cases x)
  define w' where "w' = step host a w"
  define old where "old = map id' (reminders w)"
  define new where "new = map id' (reminders w')"
  define rest where "rest = issued script"
  define fresh where "fresh = (case a of PressAdd nm rc t \<Rightarrow> if rejected nm rc then [] else [mathRandom host]
              | PressDelete i \<Rightarrow> [])"
  have r: "run w (x # script) = run w' script" by (simp add: x w'_def)
  have iss: "issued (x # script) = fresh @ rest"
    by (simp only: x issued_step fresh_def rest_def)
  have n: "distinct old \<Longrightarrow> set old \<inter> set fresh = {} \<Longrightarrow> distinct fresh
      \<Longrightarrow> distinct new \<and> set new \<subseteq> set old \<union> set fresh"
    unfolding new_def old_def w'_def fresh_def step_ids by (cases a) auto
  have p1: "distinct old" using Cons.prems(1) by (simp only: old_def)
  have p2: "distinct (fresh @ rest)" using Cons.prems(2) by (simp only: iss)
  have p3: "set old \<inter> set (fresh @ rest) = {}" using Cons.prems(3) by (simp only: iss old_def)
  from p2 have f: "distinct fresh" and rs: "distinct rest" and fr: "set fresh \<inter> set rest = {}"
    by simp_all
  from p3 have ofr: "set old \<inter> set fresh = {}" and orr: "set old \<inter> set rest = {}" by auto
  from n [OF p1 ofr f] have dn: "distinct new" and sn: "set new \<subseteq> set old \<union> set fresh"
    by simp_all
  have dj: "set new \<inter> set rest = {}" using sn fr orr by blast
  have "distinct (map id' (reminders (run w' script)))
      \<and> set (map id' (reminders (run w' script))) \<subseteq> set (map id' (reminders w')) \<union> set (issued script)"
    using dn rs dj unfolding new_def rest_def by (rule Cons.IH)
  then have "distinct (map id' (reminders (run w' script)))"
    and "set (map id' (reminders (run w' script))) \<subseteq> set new \<union> set rest"
    by (simp_all only: new_def rest_def)
  then show ?case
    using sn by (simp only: r iss old_def [symmetric]) auto
qed

text \<open>
  C9, as the program has it. In a run from the mounted component, when the identifiers
  handed out (the random texts drawn by the accepted additions) are pairwise distinct,
  the identifiers of the collection reached are pairwise distinct, and each of them is
  one of those handed out. Distinct draws is also what keeps an identifier from being
  handed out again after its reminder was deleted.
\<close>

theorem run_ids_unique:
  assumes "distinct (issued script)"
  shows "distinct (map id' (reminders (run (mounted t0) script)))
    \<and> set (map id' (reminders (run (mounted t0) script))) \<subseteq> set (issued script)"
  using run_ids [of "mounted t0" script] assms by (simp add: mounted_def)

theorem run_ids_unique_witness:
  "distinct (issued [(exampleHost, PressAdd ''pills'' ''3'' 1708437600000),
                     (otherHost, PressAdd ''water'' ''2'' 1708441200000),
                     (exampleHost, PressDelete ''0.5'')])
   \<and> distinct (map id' (reminders (run (mounted 1708423200000)
        [(exampleHost, PressAdd ''pills'' ''3'' 1708437600000),
         (otherHost, PressAdd ''water'' ''2'' 1708441200000),
         (exampleHost, PressDelete ''0.5'')])))"
proof -
  have a: "distinct (issued [(exampleHost, PressAdd ''pills'' ''3'' 1708437600000),
                     (otherHost, PressAdd ''water'' ''2'' 1708441200000),
                     (exampleHost, PressDelete ''0.5'')])"
    by code_simp
  from run_ids_unique [OF a, of 1708423200000] a show ?thesis by blast
qed

text \<open>
  C9, as the specification states it, fails: the identifier is the text of
  \<^verbatim>\<open>Math.random()\<close>, and nothing compares it with the identifiers in use. When two
  calls draw the same number, two different reminders of the collection carry the same
  identifier.
\<close>

theorem run_ids_collide:
  "issued [(exampleHost, PressAdd ''pills'' ''3'' 1708437600000),
           (exampleHost, PressAdd ''water'' ''2'' 1708441200000)] = [''0.5'', ''0.5'']
   \<and> map name (reminders (run (mounted 1708423200000)
        [(exampleHost, PressAdd ''pills'' ''3'' 1708437600000),
         (exampleHost, PressAdd ''water'' ''2'' 1708441200000)])) = [''pills'', ''water'']
   \<and> map id' (reminders (run (mounted 1708423200000)
        [(exampleHost, PressAdd ''pills'' ''3'' 1708437600000),
         (exampleHost, PressAdd ''water'' ''2'' 1708441200000)])) = [''0.5'', ''0.5'']"
  by code_simp

section \<open>Properties of the calendar\<close>

subsection \<open>Years\<close>

lemma div_lower: "0 < n \<Longrightarrow> n * (x div n) \<le> (x::int)"
  using mult_div_mod_eq [of n x] pos_mod_sign [of n x] by linarith

lemma div_upper: "0 < n \<Longrightarrow> (x::int) < n * (x div n) + n"
  using mult_div_mod_eq [of n x] pos_mod_bound [of n x] by linarith

lemma DayFromYear_estimate_low: "DayFromYear (1970 + (400 * d) div 146097 - 1) \<le> d"
proof -
  define k where "k = (400 * d) div 146097"
  define y where "y = 1970 + k - 1"
  define a where "a = (y - 1969) div 4"
  define b where "b = (y - 1901) div 100"
  define c where "c = (y - 1601) div 400"
  have 1: "146097 * k \<le> 400 * d" unfolding k_def by (rule div_lower) simp
  have 2: "4 * a \<le> y - 1969" unfolding a_def by (rule div_lower) simp
  have 3: "y - 1901 < 100 * b + 100" unfolding b_def by (rule div_upper) simp
  have 4: "400 * c \<le> y - 1601" unfolding c_def by (rule div_lower) simp
  have "365 * (y - 1970) + a - b + c \<le> d" using 1 2 3 4 unfolding y_def by simp
  then show ?thesis unfolding DayFromYear_def a_def b_def c_def y_def k_def .
qed

lemma DayFromYear_estimate_high: "d < DayFromYear (1970 + (400 * d) div 146097 + 2)"
proof -
  define k where "k = (400 * d) div 146097"
  define y where "y = 1970 + k + 2"
  define a where "a = (y - 1969) div 4"
  define b where "b = (y - 1901) div 100"
  define c where "c = (y - 1601) div 400"
  have 1: "400 * d < 146097 * k + 146097" unfolding k_def by (rule div_upper) simp
  have 2: "y - 1969 < 4 * a + 4" unfolding a_def by (rule div_upper) simp
  have 3: "100 * b \<le> y - 1901" unfolding b_def by (rule div_lower) simp
  have 4: "y - 1601 < 400 * c + 400" unfolding c_def by (rule div_upper) simp
  have "d < 365 * (y - 1970) + a - b + c" using 1 2 3 4 unfolding y_def by simp
  then show ?thesis unfolding DayFromYear_def a_def b_def c_def y_def k_def .
qed

lemma YearFromTime_bounds:
  "DayFromYear (YearFromTime t) \<le> Day t \<and> Day t < DayFromYear (YearFromTime t + 1)"
proof -
  define d where "d = Day t"
  define y0 where "y0 = 1970 + (400 * d) div 146097"
  have lo: "DayFromYear (y0 - 1) \<le> d" unfolding y0_def by (rule DayFromYear_estimate_low)
  have hi: "d < DayFromYear (y0 + 2)" unfolding y0_def by (rule DayFromYear_estimate_high)
  have y: "YearFromTime t = (if DayFromYear (y0 + 1) \<le> d then y0 + 1
         else if DayFromYear y0 \<le> d then y0 else y0 - 1)"
    by (simp add: YearFromTime_def Let_def d_def y0_def)
  have e: "y0 + 1 + 1 = y0 + 2" "y0 - 1 + 1 = y0" by simp_all
  show ?thesis using lo hi unfolding y d_def [symmetric] by (auto simp: e)
qed

lemma step_div:
  assumes "0 < n"
  shows "((a::int) + 1) div n = a div n + (if (a + 1) mod n = 0 then 1 else 0)"
proof -
  define q where "q = a div n"
  define r where "r = a mod n"
  have a: "a = q * n + r" by (simp add: q_def r_def)
  have r: "0 \<le> r" "r < n" using assms by (simp_all add: r_def)
  show ?thesis
  proof (cases "r + 1 = n")
    case True
    then have "a + 1 = (q + 1) * n" using a by (simp add: algebra_simps)
    then show ?thesis using assms by (simp add: q_def)
  next
    case False
    then have l: "r + 1 < n" using r by simp
    have e: "a + 1 = n * q + (r + 1)" using a by (simp add: algebra_simps)
    have d: "(a + 1) div n = q" using e r l by (intro int_div_pos_eq) simp_all
    have m: "(a + 1) mod n = r + 1" using e r l by (intro int_mod_pos_eq) simp_all
    show ?thesis using d m r by (simp add: q_def)
  qed
qed

lemma mod_shift: "n dvd k \<Longrightarrow> ((y::int) - k) mod n = 0 \<longleftrightarrow> y mod n = 0"
  by (metis dvd_diff dvd_add_left_iff diff_add_cancel mod_eq_0_iff_dvd)

lemma DayFromYear_Suc: "DayFromYear (y + 1) = DayFromYear y + DaysInYear y"
proof -
  have a: "(y + 1 - 1969) div 4 = (y - 1969) div 4 + (if y mod 4 = 0 then 1 else 0)"
    using step_div [of 4 "y - 1969"] mod_shift [of 4 1968 y] by (simp add: algebra_simps)
  have b: "(y + 1 - 1901) div 100 = (y - 1901) div 100 + (if y mod 100 = 0 then 1 else 0)"
    using step_div [of 100 "y - 1901"] mod_shift [of 100 1900 y] by (simp add: algebra_simps)
  have c: "(y + 1 - 1601) div 400 = (y - 1601) div 400 + (if y mod 400 = 0 then 1 else 0)"
    using step_div [of 400 "y - 1601"] mod_shift [of 400 1600 y] by (simp add: algebra_simps)
  have d4: "y mod 100 = 0 \<Longrightarrow> y mod 4 = 0" by presburger
  have d100: "y mod 400 = 0 \<Longrightarrow> y mod 100 = 0" by presburger
  show ?thesis
    unfolding DayFromYear_def DaysInYear_def a b c using d4 d100 by auto
qed

subsection \<open>Months, days and the time within the day\<close>

lemma InLeapYear_cases: "InLeapYear t = 0 \<or> InLeapYear t = 1"
  by (simp add: InLeapYear_def)

lemma DaysInYear_InLeapYear: "DaysInYear (YearFromTime t) = 365 + InLeapYear t"
  by (simp add: InLeapYear_def DaysInYear_def)

lemma DayWithinYear_bounds: "0 \<le> DayWithinYear t \<and> DayWithinYear t < 365 + InLeapYear t"
  using YearFromTime_bounds [of t] DayFromYear_Suc [of "YearFromTime t"]
  by (simp add: DayWithinYear_def DaysInYear_InLeapYear)

lemma MonthFromTime_range: "0 \<le> MonthFromTime t \<and> MonthFromTime t \<le> 11"
  by (simp add: MonthFromTime_def Let_def)

lemma MonthFromTime_cases:
  "MonthFromTime t \<in> {0, 1, 2, 3, 4, 5, 6, 7, 8, 9, 10, 11}"
  by (simp add: MonthFromTime_def Let_def)

lemma month_date:
  "daysBeforeMonth (InLeapYear t) (MonthFromTime t) + DateFromTime t - 1 = DayWithinYear t"
proof -
  define m where "m = MonthFromTime t"
  have c: "m \<in> {0, 1, 2, 3, 4, 5, 6, 7, 8, 9, 10, 11}"
    unfolding m_def by (rule MonthFromTime_cases)
  have d: "DateFromTime t =
     (if m = 0 then DayWithinYear t + 1
         else if m = 1 then DayWithinYear t - 30
         else if m = 2 then DayWithinYear t - 58 - InLeapYear t
         else if m = 3 then DayWithinYear t - 89 - InLeapYear t
         else if m = 4 then DayWithinYear t - 119 - InLeapYear t
         else if m = 5 then DayWithinYear t - 150 - InLeapYear t
         else if m = 6 then DayWithinYear t - 180 - InLeapYear t
         else if m = 7 then DayWithinYear t - 211 - InLeapYear t
         else if m = 8 then DayWithinYear t - 242 - InLeapYear t
         else if m = 9 then DayWithinYear t - 272 - InLeapYear t
         else if m = 10 then DayWithinYear t - 303 - InLeapYear t
         else DayWithinYear t - 333 - InLeapYear t)"
    by (simp only: DateFromTime_def Let_def m_def)
  have "daysBeforeMonth (InLeapYear t) m + DateFromTime t - 1 = DayWithinYear t"
    using c unfolding d daysBeforeMonth_def by (elim insertE emptyE) simp_all
  then show ?thesis by (simp only: m_def)
qed

lemma MakeDay_fields: "MakeDay (YearFromTime t) (MonthFromTime t) (DateFromTime t) = Day t"
proof -
  have m: "MonthFromTime t div 12 = 0" "MonthFromTime t mod 12 = MonthFromTime t"
    using MonthFromTime_range [of t] by simp_all
  have l: "(if DaysInYear (YearFromTime t) = 366 then 1 else 0) = InLeapYear t"
    by (simp add: InLeapYear_def)
  have "MakeDay (YearFromTime t) (MonthFromTime t) (DateFromTime t)
      = DayFromYear (YearFromTime t)
        + (daysBeforeMonth (InLeapYear t) (MonthFromTime t) + DateFromTime t - 1)"
    by (simp add: MakeDay_def Let_def m l)
  then show ?thesis by (simp add: month_date DayWithinYear_def)
qed

lemma DateFromTime_range:
  "1 \<le> DateFromTime t \<and> DateFromTime t \<le> monthLength (InLeapYear t) (MonthFromTime t)"
proof -
  define d where "d = DayWithinYear t"
  define l where "l = InLeapYear t"
  have b: "0 \<le> d" "d < 365 + l" using DayWithinYear_bounds [of t] by (simp_all add: d_def l_def)
  have lc: "l = 0 \<or> l = 1" using InLeapYear_cases [of t] by (simp add: l_def)
  have m: "MonthFromTime t =
     (if d < 31 then 0 else if d < 59 + l then 1 else if d < 90 + l then 2
      else if d < 120 + l then 3 else if d < 151 + l then 4 else if d < 181 + l then 5
      else if d < 212 + l then 6 else if d < 243 + l then 7 else if d < 273 + l then 8
      else if d < 304 + l then 9 else if d < 334 + l then 10 else 11)"
    by (simp add: MonthFromTime_def Let_def d_def l_def)
  consider "d < 31" | "31 \<le> d" "d < 59 + l" | "59 + l \<le> d" "d < 90 + l"
    | "90 + l \<le> d" "d < 120 + l" | "120 + l \<le> d" "d < 151 + l" | "151 + l \<le> d" "d < 181 + l"
    | "181 + l \<le> d" "d < 212 + l" | "212 + l \<le> d" "d < 243 + l" | "243 + l \<le> d" "d < 273 + l"
    | "273 + l \<le> d" "d < 304 + l" | "304 + l \<le> d" "d < 334 + l" | "334 + l \<le> d"
    by linarith
  then show ?thesis
  proof cases
    case 1
    then have "MonthFromTime t = 0" by (simp add: m)
    then show ?thesis using 1 b
      by (simp add: DateFromTime_def Let_def monthLength_def d_def [symmetric])
  next
    case 2
    then have "MonthFromTime t = 1" using lc by (auto simp: m)
    then show ?thesis using 2 b
      by (simp add: DateFromTime_def Let_def monthLength_def d_def [symmetric] l_def [symmetric])
  next
    case 3
    then have "MonthFromTime t = 2" using lc by (auto simp: m)
    then show ?thesis using 3 b
      by (simp add: DateFromTime_def Let_def monthLength_def d_def [symmetric] l_def [symmetric])
  next
    case 4
    then have "MonthFromTime t = 3" using lc by (auto simp: m)
    then show ?thesis using 4 b
      by (simp add: DateFromTime_def Let_def monthLength_def d_def [symmetric] l_def [symmetric])
  next
    case 5
    then have "MonthFromTime t = 4" using lc by (auto simp: m)
    then show ?thesis using 5 b
      by (simp add: DateFromTime_def Let_def monthLength_def d_def [symmetric] l_def [symmetric])
  next
    case 6
    then have "MonthFromTime t = 5" using lc by (auto simp: m)
    then show ?thesis using 6 b
      by (simp add: DateFromTime_def Let_def monthLength_def d_def [symmetric] l_def [symmetric])
  next
    case 7
    then have "MonthFromTime t = 6" using lc by (auto simp: m)
    then show ?thesis using 7 b
      by (simp add: DateFromTime_def Let_def monthLength_def d_def [symmetric] l_def [symmetric])
  next
    case 8
    then have "MonthFromTime t = 7" using lc by (auto simp: m)
    then show ?thesis using 8 b
      by (simp add: DateFromTime_def Let_def monthLength_def d_def [symmetric] l_def [symmetric])
  next
    case 9
    then have "MonthFromTime t = 8" using lc by (auto simp: m)
    then show ?thesis using 9 b
      by (simp add: DateFromTime_def Let_def monthLength_def d_def [symmetric] l_def [symmetric])
  next
    case 10
    then have "MonthFromTime t = 9" using lc by (auto simp: m)
    then show ?thesis using 10 b
      by (simp add: DateFromTime_def Let_def monthLength_def d_def [symmetric] l_def [symmetric])
  next
    case 11
    then have "MonthFromTime t = 10" using lc by (auto simp: m)
    then show ?thesis using 11 b
      by (simp add: DateFromTime_def Let_def monthLength_def d_def [symmetric] l_def [symmetric])
  next
    case 12
    then have "MonthFromTime t = 11" using lc by (auto simp: m)
    then show ?thesis using 12 b
      by (simp add: DateFromTime_def Let_def monthLength_def d_def [symmetric] l_def [symmetric])
  qed
qed

lemma MakeTime_fields:
  "MakeTime (HourFromTime t) (MinFromTime t) (SecFromTime t) (msFromTime t) = TimeWithinDay t"
proof -
  define h where "h = t div 3600000 mod 24"
  define m where "m = t div 60000 mod 60"
  define s where "s = t div 1000 mod 60"
  define ms where "ms = t mod 1000"
  define r1 where "r1 = t mod 3600000"
  define r2 where "r2 = t mod 60000"
  define w where "w = t mod 86400000"
  have a: "r2 = 1000 * s + ms"
    using zmod_zmult2_eq [of 60 t 1000] by (simp add: r2_def s_def ms_def)
  have b: "r1 = 60000 * m + r2"
    using zmod_zmult2_eq [of 60 t 60000] by (simp add: r1_def m_def r2_def)
  have c: "w = 3600000 * h + r1"
    using zmod_zmult2_eq [of 24 t 3600000] by (simp add: w_def h_def r1_def)
  have "h * 3600000 + m * 60000 + s * 1000 + ms = w"
    by (simp add: a b c)
  then show ?thesis
    by (simp only: MakeTime_def HourFromTime_def MinFromTime_def SecFromTime_def msFromTime_def
        TimeWithinDay_def msPerDay_def h_def m_def s_def ms_def w_def)
qed

lemma MakeDate_fields: "MakeDate (Day t) (TimeWithinDay t) = t"
  by (simp add: MakeDate_def Day_def TimeWithinDay_def)

lemma mod_le_pred: "0 < n \<Longrightarrow> (x::int) mod n \<le> n - 1"
  using pos_mod_bound [of n x] by (simp only: zle_diff1_eq)

lemma time_ranges:
  fixes t :: int
  shows "0 \<le> HourFromTime t \<and> HourFromTime t \<le> 23 \<and> 0 \<le> MinFromTime t \<and> MinFromTime t \<le> 59
   \<and> 0 \<le> SecFromTime t \<and> SecFromTime t \<le> 59 \<and> 0 \<le> msFromTime t \<and> msFromTime t \<le> 999"
proof -
  have h: "t div 3600000 mod 24 \<le> 23" using mod_le_pred [of 24 "t div 3600000"] by simp
  have m: "t div 60000 mod 60 \<le> 59" using mod_le_pred [of 60 "t div 60000"] by simp
  have s: "t div 1000 mod 60 \<le> 59" using mod_le_pred [of 60 "t div 1000"] by simp
  have ms: "t mod 1000 \<le> 999" using mod_le_pred [of 1000 t] by simp
  show ?thesis
    unfolding HourFromTime_def MinFromTime_def SecFromTime_def msFromTime_def
    using h m s ms by (intro conjI) simp_all
qed

text \<open>
  Within the month of the stored time the scheduler's base time is today's date at the
  stored time of day; C3 fails only across months.
\<close>

lemma reminderTime_same_month:
  assumes "YearFromTime (LocalTime z (time r)) = YearFromTime (LocalTime z now)"
    and "MonthFromTime (LocalTime z (time r)) = MonthFromTime (LocalTime z now)"
  shows "reminderTime z now r = TimeClip (todayAt z now (time r))"
  using assms
  by (simp add: reminderTime_def setDate_def getDate_def todayAt_def Let_def MakeDay_fields)

lemma scheduleNotification_same_month:
  assumes "YearFromTime (LocalTime z (time r)) = YearFromTime (LocalTime z now)"
    and "MonthFromTime (LocalTime z (time r)) = MonthFromTime (LocalTime z now)"
    and "TimeClip (todayAt z now (time r)) \<noteq> None"
  shows "scheduleNotification z now r =
     replicate
       (card {i. 0 \<le> i \<and> i < repeatCount r
                 \<and> after (fireDate (Some (todayAt z now (time r))) i) now})
       (request r)"
proof -
  from assms(3) have "TimeClip (todayAt z now (time r)) = Some (todayAt z now (time r))"
    by (cases "\<bar>todayAt z now (time r)\<bar> > 8640000000000000") (simp_all add: TimeClip_def)
  then have "reminderTime z now r = Some (todayAt z now (time r))"
    using reminderTime_same_month [OF assms(1,2)] by simp
  then show ?thesis
    using scheduleNotification_requests [of z now r] by simp
qed

section \<open>Properties of the date text\<close>

subsection \<open>Digits\<close>

lemma digitVal_digitChar: "d < 10 \<Longrightarrow> digitVal (digitChar d) = Some d"
  by (simp add: digitVal_def digitChar_def Let_def)

lemma digits2:
  "a < 10 \<Longrightarrow> b < 10 \<Longrightarrow> digits [digitChar a, digitChar b] = Some (a * 10 + b)"
  by (simp add: digits_def digitVal_digitChar)

lemma digits3:
  "a < 10 \<Longrightarrow> b < 10 \<Longrightarrow> c < 10 \<Longrightarrow>
   digits [digitChar a, digitChar b, digitChar c] = Some ((a * 10 + b) * 10 + c)"
  by (simp add: digits_def digitVal_digitChar)

lemma digits4:
  "a < 10 \<Longrightarrow> b < 10 \<Longrightarrow> c < 10 \<Longrightarrow> d < 10 \<Longrightarrow>
   digits [digitChar a, digitChar b, digitChar c, digitChar d]
     = Some (((a * 10 + b) * 10 + c) * 10 + d)"
  by (simp add: digits_def digitVal_digitChar)

lemma digits6:
  "a < 10 \<Longrightarrow> b < 10 \<Longrightarrow> c < 10 \<Longrightarrow> d < 10 \<Longrightarrow> e < 10 \<Longrightarrow> f < 10 \<Longrightarrow>
   digits [digitChar a, digitChar b, digitChar c, digitChar d, digitChar e, digitChar f]
     = Some (((((a * 10 + b) * 10 + c) * 10 + d) * 10 + e) * 10 + f)"
  by (simp add: digits_def digitVal_digitChar)

lemma split10: "(n::nat) div 10 * 10 + n mod 10 = n"
  by simp

lemma shift10: "(n::nat) div (k * 10) * 10 + n div k mod 10 = n div k"
  by (simp add: div_mult2_eq)

lemma digits_pad2: "n < 100 \<Longrightarrow> digits (pad2 n) = Some n"
proof -
  assume "n < 100"
  then have "n div 10 mod 10 = n div 10" by simp
  then show ?thesis by (simp add: pad2_def digits2)
qed

lemma digits_pad3: "n < 1000 \<Longrightarrow> digits (pad3 n) = Some n"
proof -
  assume n: "n < 1000"
  then have a: "n div 100 mod 10 = n div 100" by simp
  have b: "n div 100 * 10 + n div 10 mod 10 = n div 10"
    using shift10 [of n 10] by simp
  have "digits (pad3 n) = Some ((n div 100 * 10 + n div 10 mod 10) * 10 + n mod 10)"
    unfolding pad3_def a by (rule digits3) (use n in simp_all)
  then show ?thesis by (simp only: b split10)
qed

lemma digits_pad4: "n < 10000 \<Longrightarrow> digits (pad4 n) = Some n"
proof -
  assume n: "n < 10000"
  then have a: "n div 1000 mod 10 = n div 1000" by simp
  have b: "n div 1000 * 10 + n div 100 mod 10 = n div 100"
    using shift10 [of n 100] by simp
  have c: "n div 100 * 10 + n div 10 mod 10 = n div 10"
    using shift10 [of n 10] by simp
  have "digits (pad4 n)
      = Some (((n div 1000 * 10 + n div 100 mod 10) * 10 + n div 10 mod 10) * 10 + n mod 10)"
    unfolding pad4_def a by (rule digits4) (use n in simp_all)
  then show ?thesis by (simp only: b c split10)
qed

lemma digits_pad6: "n < 1000000 \<Longrightarrow> digits (pad6 n) = Some n"
proof -
  assume n: "n < 1000000"
  then have a: "n div 100000 mod 10 = n div 100000" by simp
  have b: "n div 100000 * 10 + n div 10000 mod 10 = n div 10000"
    using shift10 [of n 10000] by simp
  have c: "n div 10000 * 10 + n div 1000 mod 10 = n div 1000"
    using shift10 [of n 1000] by simp
  have d: "n div 1000 * 10 + n div 100 mod 10 = n div 100"
    using shift10 [of n 100] by simp
  have e: "n div 100 * 10 + n div 10 mod 10 = n div 10"
    using shift10 [of n 10] by simp
  have "digits (pad6 n)
      = Some (((((n div 100000 * 10 + n div 10000 mod 10) * 10 + n div 1000 mod 10) * 10
                + n div 100 mod 10) * 10 + n div 10 mod 10) * 10 + n mod 10)"
    unfolding pad6_def a by (rule digits6) (use n in simp_all)
  then show ?thesis by (simp only: b c d e split10)
qed

lemma digitChar_not_sign: "d < 10 \<Longrightarrow> digitChar d \<noteq> CHR ''+'' \<and> digitChar d \<noteq> CHR ''-''"
proof -
  assume "d < 10"
  then have "of_char (digitChar d) = 48 + d" by (simp add: digitChar_def)
  then show ?thesis by auto
qed

subsection \<open>Reading back what \<^verbatim>\<open>toISOString\<close> writes\<close>

lemma parseISO_short:
  "parseISO [y1, y2, y3, y4, CHR ''-'', m1, m2, CHR ''-'', d1, d2, CHR ''T'', h1, h2, CHR '':'',
             n1, n2, CHR '':'', s1, s2, CHR ''.'', f1, f2, f3, CHR ''Z'']
   = Option.bind (digits [y1, y2, y3, y4]) (\<lambda>y.
     Option.bind (digits [m1, m2]) (\<lambda>mo.
     Option.bind (digits [d1, d2]) (\<lambda>d.
     Option.bind (digits [h1, h2]) (\<lambda>h.
     Option.bind (digits [n1, n2]) (\<lambda>mi.
     Option.bind (digits [s1, s2]) (\<lambda>sec.
     Option.bind (digits [f1, f2, f3]) (\<lambda>ms.
       fromFields False y mo d h mi sec ms)))))))"
  by (simp add: parseISO_def Let_def)

lemma parseISO_long:
  "sg = CHR ''+'' \<or> sg = CHR ''-'' \<Longrightarrow>
   parseISO [sg, y1, y2, y3, y4, y5, y6, CHR ''-'', m1, m2, CHR ''-'', d1, d2, CHR ''T'', h1, h2,
             CHR '':'', n1, n2, CHR '':'', s1, s2, CHR ''.'', f1, f2, f3, CHR ''Z'']
   = Option.bind (digits [y1, y2, y3, y4, y5, y6]) (\<lambda>y.
     Option.bind (digits [m1, m2]) (\<lambda>mo.
     Option.bind (digits [d1, d2]) (\<lambda>d.
     Option.bind (digits [h1, h2]) (\<lambda>h.
     Option.bind (digits [n1, n2]) (\<lambda>mi.
     Option.bind (digits [s1, s2]) (\<lambda>sec.
     Option.bind (digits [f1, f2, f3]) (\<lambda>ms.
       fromFields (sg = CHR ''-'') y mo d h mi sec ms)))))))"
  by (simp add: parseISO_def Let_def)

lemma Day_range:
  assumes "\<bar>t\<bar> \<le> 8640000000000000"
  shows "- 100000000 \<le> Day t \<and> Day t \<le> 100000000"
proof -
  define d where "d = t div 86400000"
  have lo: "86400000 * d \<le> t" unfolding d_def by (rule div_lower) simp
  have hi: "t < 86400000 * d + 86400000" unfolding d_def by (rule div_upper) simp
  have "- 100000000 \<le> d \<and> d \<le> 100000000" using assms lo hi by linarith
  then show ?thesis by (simp only: Day_def msPerDay_def d_def)
qed

lemma YearFromTime_range:
  assumes "\<bar>t\<bar> \<le> 8640000000000000"
  shows "- 271821 \<le> YearFromTime t \<and> YearFromTime t \<le> 275760"
proof -
  define y where "y = YearFromTime t"
  define a where "a = (y - 1969) div 4"
  define b where "b = (y - 1901) div 100"
  define c where "c = (y - 1601) div 400"
  define a' where "a' = (y + 1 - 1969) div 4"
  define b' where "b' = (y + 1 - 1901) div 100"
  define c' where "c' = (y + 1 - 1601) div 400"
  have d: "- 100000000 \<le> Day t" "Day t \<le> 100000000" using Day_range [OF assms] by simp_all
  have lo: "365 * (y - 1970) + a - b + c \<le> Day t"
    using YearFromTime_bounds [of t] by (simp add: DayFromYear_def y_def a_def b_def c_def)
  have hi: "Day t < 365 * (y + 1 - 1970) + a' - b' + c'"
    using YearFromTime_bounds [of t] by (simp add: DayFromYear_def y_def a'_def b'_def c'_def)
  have 1: "y - 1969 < 4 * a + 4" unfolding a_def by (rule div_upper) simp
  have 2: "100 * b \<le> y - 1901" unfolding b_def by (rule div_lower) simp
  have 3: "y - 1601 < 400 * c + 400" unfolding c_def by (rule div_upper) simp
  have 4: "4 * a' \<le> y + 1 - 1969" unfolding a'_def by (rule div_lower) simp
  have 5: "y + 1 - 1901 < 100 * b' + 100" unfolding b'_def by (rule div_upper) simp
  have 6: "400 * c' \<le> y + 1 - 1601" unfolding c'_def by (rule div_lower) simp
  have u: "y \<le> 275760" using lo d(2) 1 2 3 by simp
  have l: "- 271821 \<le> y" using hi d(1) 4 5 6 by simp
  from l u show ?thesis by (simp only: y_def)
qed

lemma fromFields_fields:
  assumes y: "int yn = (if neg then - YearFromTime t else YearFromTime t)"
    and z: "neg \<longrightarrow> yn \<noteq> 0"
  shows "fromFields neg yn (nat (MonthFromTime t + 1)) (nat (DateFromTime t))
           (nat (HourFromTime t)) (nat (MinFromTime t)) (nat (SecFromTime t)) (nat (msFromTime t))
         = Some t"
proof -
  have yr: "(if neg then - int yn else int yn) = YearFromTime t" using y by simp
  have m: "0 \<le> MonthFromTime t" "MonthFromTime t \<le> 11" using MonthFromTime_range [of t] by simp_all
  have d: "1 \<le> DateFromTime t" "DateFromTime t \<le> monthLength (InLeapYear t) (MonthFromTime t)"
    using DateFromTime_range [of t] by simp_all
  note r = time_ranges [of t]
  have l: "(if DaysInYear (YearFromTime t) = 366 then 1 else 0) = InLeapYear t"
    by (simp add: InLeapYear_def)
  have mi: "int (nat (MonthFromTime t + 1)) - 1 = MonthFromTime t" using m by simp
  have di: "int (nat (DateFromTime t)) = DateFromTime t" using d by simp
  have ti: "int (nat (HourFromTime t)) = HourFromTime t" "int (nat (MinFromTime t)) = MinFromTime t"
    "int (nat (SecFromTime t)) = SecFromTime t" "int (nat (msFromTime t)) = msFromTime t"
    using r by simp_all
  have c1: "\<not> (neg \<and> yn = 0)" using z by simp
  have c2: "\<not> nat (MonthFromTime t + 1) < 1" "\<not> 12 < nat (MonthFromTime t + 1)" using m by simp_all
  have c3: "\<not> nat (DateFromTime t) < 1" using d by simp
  have c4: "\<not> monthLength (InLeapYear t) (MonthFromTime t) < DateFromTime t" using d by simp
  have c5: "\<not> 23 < nat (HourFromTime t)" "\<not> 59 < nat (MinFromTime t)" "\<not> 59 < nat (SecFromTime t)"
    using r by linarith+
  show ?thesis
    unfolding fromFields_def Let_def yr l mi di ti
    using c1 c2 c3 c4 c5
    by (simp add: MakeDay_fields MakeTime_fields MakeDate_fields)
qed

lemma field_widths:
  "nat (MonthFromTime t + 1) < 100 \<and> nat (DateFromTime t) < 100 \<and> nat (HourFromTime t) < 100
   \<and> nat (MinFromTime t) < 100 \<and> nat (SecFromTime t) < 100 \<and> nat (msFromTime t) < 1000"
proof -
  have m: "MonthFromTime t \<le> 11" using MonthFromTime_range [of t] by simp
  have "monthLength (InLeapYear t) (MonthFromTime t) \<le> 31"
    using InLeapYear_cases [of t] by (auto simp: monthLength_def)
  then have d: "DateFromTime t \<le> 31" using DateFromTime_range [of t] by simp
  note r = time_ranges [of t]
  show ?thesis using m d r by (intro conjI) linarith+
qed

lemma parseISO_toISOString:
  assumes "\<bar>t\<bar> \<le> 8640000000000000"
  shows "parseISO (toISOString t) = Some t"
proof -
  note w = field_widths [of t]
  have p: "digits (pad2 (nat (MonthFromTime t + 1))) = Some (nat (MonthFromTime t + 1))"
    "digits (pad2 (nat (DateFromTime t))) = Some (nat (DateFromTime t))"
    "digits (pad2 (nat (HourFromTime t))) = Some (nat (HourFromTime t))"
    "digits (pad2 (nat (MinFromTime t))) = Some (nat (MinFromTime t))"
    "digits (pad2 (nat (SecFromTime t))) = Some (nat (SecFromTime t))"
    "digits (pad3 (nat (msFromTime t))) = Some (nat (msFromTime t))"
    using w by (simp_all add: digits_pad2 digits_pad3)
  note yr = YearFromTime_range [OF assms]
  show ?thesis
  proof (cases "0 \<le> YearFromTime t \<and> YearFromTime t \<le> 9999")
    case True
    then have "nat (YearFromTime t) < 10000" by linarith
    then have y: "digits (pad4 (nat (YearFromTime t))) = Some (nat (YearFromTime t))"
      by (rule digits_pad4)
    have f: "fromFields False (nat (YearFromTime t)) (nat (MonthFromTime t + 1))
        (nat (DateFromTime t)) (nat (HourFromTime t)) (nat (MinFromTime t)) (nat (SecFromTime t))
        (nat (msFromTime t)) = Some t"
      using True by (intro fromFields_fields) simp_all
    have "parseISO (toISOString t)
      = Option.bind (digits (pad4 (nat (YearFromTime t)))) (\<lambda>y.
        Option.bind (digits (pad2 (nat (MonthFromTime t + 1)))) (\<lambda>mo.
        Option.bind (digits (pad2 (nat (DateFromTime t)))) (\<lambda>d.
        Option.bind (digits (pad2 (nat (HourFromTime t)))) (\<lambda>h.
        Option.bind (digits (pad2 (nat (MinFromTime t)))) (\<lambda>mi.
        Option.bind (digits (pad2 (nat (SecFromTime t)))) (\<lambda>sec.
        Option.bind (digits (pad3 (nat (msFromTime t)))) (\<lambda>ms.
          fromFields False y mo d h mi sec ms)))))))"
      using True
      by (simp add: toISOString_def yearString_def pad4_def pad2_def pad3_def parseISO_short)
    then show ?thesis by (simp only: y p Option.bind.simps f)
  next
    case False
    define sg where "sg = (if YearFromTime t < 0 then CHR ''-'' else CHR ''+'')"
    have s: "sg = CHR ''+'' \<or> sg = CHR ''-''" by (simp add: sg_def)
    have n: "(sg = CHR ''-'') = (YearFromTime t < 0)" by (simp add: sg_def)
    have y: "digits (pad6 (nat \<bar>YearFromTime t\<bar>)) = Some (nat \<bar>YearFromTime t\<bar>)"
      using yr by (intro digits_pad6) linarith
    have f: "fromFields (YearFromTime t < 0) (nat \<bar>YearFromTime t\<bar>) (nat (MonthFromTime t + 1))
        (nat (DateFromTime t)) (nat (HourFromTime t)) (nat (MinFromTime t)) (nat (SecFromTime t))
        (nat (msFromTime t)) = Some t"
      by (intro fromFields_fields) simp_all
    have e: "toISOString t = sg # pad6 (nat \<bar>YearFromTime t\<bar>) @ ''-''
        @ pad2 (nat (MonthFromTime t + 1)) @ ''-'' @ pad2 (nat (DateFromTime t)) @ ''T''
        @ pad2 (nat (HourFromTime t)) @ '':'' @ pad2 (nat (MinFromTime t)) @ '':''
        @ pad2 (nat (SecFromTime t)) @ ''.'' @ pad3 (nat (msFromTime t)) @ ''Z''"
      using False by (simp add: toISOString_def yearString_def sg_def)
    have "parseISO (toISOString t)
      = Option.bind (digits (pad6 (nat \<bar>YearFromTime t\<bar>))) (\<lambda>y.
        Option.bind (digits (pad2 (nat (MonthFromTime t + 1)))) (\<lambda>mo.
        Option.bind (digits (pad2 (nat (DateFromTime t)))) (\<lambda>d.
        Option.bind (digits (pad2 (nat (HourFromTime t)))) (\<lambda>h.
        Option.bind (digits (pad2 (nat (MinFromTime t)))) (\<lambda>mi.
        Option.bind (digits (pad2 (nat (SecFromTime t)))) (\<lambda>sec.
        Option.bind (digits (pad3 (nat (msFromTime t)))) (\<lambda>ms.
          fromFields (sg = CHR ''-'') y mo d h mi sec ms)))))))"
      unfolding e by (simp add: pad6_def pad2_def pad3_def parseISO_long [OF s])
    then show ?thesis by (simp only: y p Option.bind.simps f n)
  qed
qed

section \<open>Properties of \<^verbatim>\<open>saveReminders\<close> and \<^verbatim>\<open>loadReminders\<close>\<close>

lemma newDate_toISOString:
  "TimeClip t \<noteq> None \<Longrightarrow> newDate hostDate (Some (JStr (toISOString t))) = Inr (Some t)"
proof -
  assume v: "TimeClip t \<noteq> None"
  then have r: "\<bar>t\<bar> \<le> 8640000000000000"
    by (cases "\<bar>t\<bar> > 8640000000000000") (simp_all add: TimeClip_def)
  then have c: "TimeClip t = Some t" by (simp add: TimeClip_def)
  show ?thesis by (simp add: newDate_def parseISO_toISOString [OF r] c)
qed

lemma revive_stringifyReminder:
  "TimeClip (time r) \<noteq> None \<Longrightarrow>
   revive hostDate (stringifyReminder r) = Inr (stringifyReminder r, Some (time r))"
proof -
  assume v: "TimeClip (time r) \<noteq> None"
  have t: "getProp (stringifyReminder r) ''time'' = Some (JStr (toISOString (time r)))"
    by (simp add: getProp_def stringifyReminder_def)
  have n: "stringifyReminder r \<noteq> JNull" by (simp add: stringifyReminder_def)
  show ?thesis by (simp add: revive_def t n newDate_toISOString [OF v])
qed

lemma asReminder_stringifyReminder:
  "asReminder (stringifyReminder r, Some (time r)) = Some r"
  by (simp add: asReminder_def getProp_def stringifyReminder_def)

lemma reviveAll_stringifyReminder:
  "\<forall>r \<in> set rs. TimeClip (time r) \<noteq> None \<Longrightarrow>
   reviveAll hostDate (map stringifyReminder rs)
     = Inr (map (\<lambda>r. (stringifyReminder r, Some (time r))) rs)"
  by (induction rs) (simp_all add: revive_stringifyReminder del: not_None_eq)

lemma reviveAll_Inr:
  "(\<forall>r \<in> set rs. r \<noteq> JNull \<and> \<not> (\<exists>j. getProp r ''time'' = Some j \<and> toStringThrows j)) \<Longrightarrow>
   \<exists>xs. reviveAll hostDate rs = Inr xs \<and> map fst xs = rs"
proof (induction rs)
  case Nil
  then show ?case by simp
next
  case (Cons r rs)
  then obtain xs where xs: "reviveAll hostDate rs = Inr xs" "map fst xs = rs" by auto
  from Cons.prems have n: "r \<noteq> JNull"
    and t: "\<not> (\<exists>j. getProp r ''time'' = Some j \<and> toStringThrows j)" by simp_all
  have "\<exists>d. newDate hostDate (getProp r ''time'') = Inr d"
  proof (cases "getProp r ''time''")
    case None
    then show ?thesis by (simp add: newDate_def)
  next
    case (Some j)
    with t have "\<not> toStringThrows j" by simp
    then show ?thesis using Some by (cases j) (simp_all add: newDate_def)
  qed
  then obtain d where "newDate hostDate (getProp r ''time'') = Inr d" ..
  then have "revive hostDate r = Inr (r, d)" using n by (simp add: revive_def)
  then show ?case using xs by simp
qed

lemma revive_Inl: "revive hostDate r = Inl e \<Longrightarrow> e = TypeError"
  by (auto simp: revive_def newDate_def split: if_splits option.splits json.splits sum.splits)

lemma reviveAll_Inl:
  "(\<exists>r \<in> set rs. r = JNull \<or> (\<exists>j. getProp r ''time'' = Some j \<and> toStringThrows j)) \<Longrightarrow>
   reviveAll hostDate rs = Inl TypeError"
proof (induction rs)
  case Nil
  then show ?case by simp
next
  case (Cons r rs)
  show ?case
  proof (cases "r = JNull \<or> (\<exists>j. getProp r ''time'' = Some j \<and> toStringThrows j)")
    case True
    then have "revive hostDate r = Inl TypeError"
    proof
      assume "r = JNull"
      then show ?thesis by (simp add: revive_def)
    next
      assume "\<exists>j. getProp r ''time'' = Some j \<and> toStringThrows j"
      then obtain j where j: "getProp r ''time'' = Some j" "toStringThrows j" by blast
      then have "newDate hostDate (Some j) = Inl TypeError"
        by (cases j) (simp_all add: newDate_def)
      then show ?thesis using j by (simp add: revive_def)
    qed
    then show ?thesis by simp
  next
    case False
    with Cons.prems have "\<exists>r \<in> set rs. r = JNull \<or> (\<exists>j. getProp r ''time'' = Some j \<and> toStringThrows j)"
      by auto
    then have i: "reviveAll hostDate rs = Inl TypeError" by (rule Cons.IH)
    show ?thesis by (cases "revive hostDate r") (auto simp: i dest: revive_Inl)
  qed
qed

text \<open>
  C7. For every collection of reminders whose times are valid dates, after a
  \<^verbatim>\<open>saveReminders\<close> whose write succeeds a \<^verbatim>\<open>loadReminders\<close> whose read succeeds sets
  the state to one revived object per reminder, in the same order, and each of them reads
  under \<^verbatim>\<open>interface Reminder\<close> as the reminder saved: same identifier, name, repeat
  count and time, to the millisecond.
\<close>

theorem save_load_roundtrip:
  assumes v: "\<forall>r \<in> set rs. TimeClip (time r) \<noteq> None" and ok: "writeOk host"
  shows "loadReminders hostDate True (storage (saveReminders host rs w))
           = SetReminders
               (map (\<lambda>r. (JObj [(''id'', JStr (id' r)), (''name'', JStr (name r)),
                                  (''time'', JStr (toISOString (time r))),
                                  (''repeatCount'', JNum (repeatCount r))],
                            Some (time r))) rs)
    \<and> map asReminder
          (remindersAfterLoad (loadReminders hostDate True (storage (saveReminders host rs w))))
        = map Some rs"
proof -
  have s: "storage (saveReminders host rs w) = Some (stringify rs)"
    using ok by (simp add: saveReminders_def)
  have l: "loadReminders hostDate True (storage (saveReminders host rs w))
      = SetReminders (map (\<lambda>r. (stringifyReminder r, Some (time r))) rs)"
    by (simp add: s loadReminders_def loadBody_def stringify_def
        reviveAll_stringifyReminder [OF v])
  have a: "map asReminder (map (\<lambda>r. (stringifyReminder r, Some (time r))) rs) = map Some rs"
    by (simp add: asReminder_stringifyReminder comp_def)
  have e: "(\<lambda>r. (stringifyReminder r, Some (time r)))
      = (\<lambda>r. (JObj [(''id'', JStr (id' r)), (''name'', JStr (name r)),
                      (''time'', JStr (toISOString (time r))),
                      (''repeatCount'', JNum (repeatCount r))], Some (time r)))"
    by (simp add: stringifyReminder_def)
  have r: "map asReminder
          (remindersAfterLoad (loadReminders hostDate True (storage (saveReminders host rs w))))
        = map Some rs"
    by (simp only: l remindersAfterLoad_def loaded.case a)
  from l r show ?thesis by (simp only: e)
qed

theorem save_load_roundtrip_witness:
  "TimeClip (time pills) \<noteq> None \<and> TimeClip (time water) \<noteq> None \<and> writeOk exampleHost
   \<and> map asReminder (remindersAfterLoad (loadReminders (\<lambda>j. None) True
        (storage (saveReminders exampleHost [pills, water] (mounted 1708423200000)))))
      = [Some pills, Some water]"
proof -
  have p: "TimeClip (time pills) \<noteq> None" by (simp add: pills_def TimeClip_def)
  have q: "TimeClip (time water) \<noteq> None" by (simp add: water_def TimeClip_def)
  have v: "\<forall>r \<in> set [pills, water]. TimeClip (time r) \<noteq> None"
    using p q by (simp del: not_None_eq)
  have ok: "writeOk exampleHost" by (simp add: exampleHost_def)
  from save_load_roundtrip [OF v ok, of "\<lambda>j. None" "mounted 1708423200000"]
  have c: "map asReminder (remindersAfterLoad (loadReminders (\<lambda>j. None) True
        (storage (saveReminders exampleHost [pills, water] (mounted 1708423200000)))))
      = map Some [pills, water]"
    by (rule conjunct2)
  from p q ok c show ?thesis by simp
qed

text \<open>
  C8, as the program has it. A failed read, a text that is not JSON, a document that is
  not an array, and an array with an element that is \<^verbatim>\<open>null\<close> or whose \<^verbatim>\<open>time\<close> is an
  object or array without a way to a primitive value, end in the \<^verbatim>\<open>catch\<close>: the error
  goes to the console and nothing else happens. No stored item and an empty text skip the
  \<^verbatim>\<open>if\<close>. In all these cases the state stays the empty list. Any other array is taken
  as it is, one revived object per element with the properties of that element, whatever
  the elements are.
\<close>

theorem loadReminders_outcomes:
  "(\<not> readOk \<longrightarrow> loadReminders hostDate readOk st = ConsoleError ReadError)
   \<and> (readOk \<and> (st = None \<or> st = Some EmptyString) \<longrightarrow>
        loadReminders hostDate readOk st = NotCalled)
   \<and> (readOk \<and> st = Some Malformed \<longrightarrow>
        loadReminders hostDate readOk st = ConsoleError SyntaxError)
   \<and> (readOk \<and> st = Some (Document j) \<and> (\<forall>rs. j \<noteq> JArr rs) \<longrightarrow>
        loadReminders hostDate readOk st = ConsoleError TypeError)
   \<and> (readOk \<and> st = Some (Document (JArr rs))
        \<and> (\<exists>r \<in> set rs. r = JNull \<or> (\<exists>t. getProp r ''time'' = Some t \<and> toStringThrows t)) \<longrightarrow>
        loadReminders hostDate readOk st = ConsoleError TypeError)
   \<and> (readOk \<and> st = Some (Document (JArr rs))
        \<and> (\<forall>r \<in> set rs. r \<noteq> JNull \<and> \<not> (\<exists>t. getProp r ''time'' = Some t \<and> toStringThrows t)) \<longrightarrow>
        (\<exists>xs. loadReminders hostDate readOk st = SetReminders xs \<and> map fst xs = rs))
   \<and> (\<not> (readOk \<and> (\<exists>rs. st = Some (Document (JArr rs))
          \<and> (\<forall>r \<in> set rs. r \<noteq> JNull \<and> \<not> (\<exists>t. getProp r ''time'' = Some t \<and> toStringThrows t)))) \<longrightarrow>
        remindersAfterLoad (loadReminders hostDate readOk st) = [])"
proof -
  let ?bad = "\<lambda>rs. \<exists>r \<in> set rs. r = JNull \<or> (\<exists>t. getProp r ''time'' = Some t \<and> toStringThrows t)"
  let ?good = "\<lambda>rs. \<forall>r \<in> set rs. r \<noteq> JNull \<and> \<not> (\<exists>t. getProp r ''time'' = Some t \<and> toStringThrows t)"
  have 1: "\<not> readOk \<longrightarrow> loadReminders hostDate readOk st = ConsoleError ReadError"
    by (simp add: loadReminders_def loadBody_def)
  have 2: "readOk \<and> (st = None \<or> st = Some EmptyString) \<longrightarrow>
        loadReminders hostDate readOk st = NotCalled"
    by (auto simp: loadReminders_def loadBody_def)
  have 3: "readOk \<and> st = Some Malformed \<longrightarrow>
        loadReminders hostDate readOk st = ConsoleError SyntaxError"
    by (simp add: loadReminders_def loadBody_def)
  have 4: "readOk \<and> st = Some (Document j) \<and> (\<forall>rs. j \<noteq> JArr rs) \<longrightarrow>
        loadReminders hostDate readOk st = ConsoleError TypeError"
    by (cases j) (simp_all add: loadReminders_def loadBody_def)
  have 5: "readOk \<and> st = Some (Document (JArr rs)) \<and> ?bad rs \<longrightarrow>
        loadReminders hostDate readOk st = ConsoleError TypeError"
  proof (intro impI, elim conjE)
    assume "readOk" "st = Some (Document (JArr rs))" "?bad rs"
    then show "loadReminders hostDate readOk st = ConsoleError TypeError"
      using reviveAll_Inl [of rs hostDate] by (simp add: loadReminders_def loadBody_def)
  qed
  have 6: "readOk \<and> st = Some (Document (JArr rs)) \<and> ?good rs \<longrightarrow>
        (\<exists>xs. loadReminders hostDate readOk st = SetReminders xs \<and> map fst xs = rs)"
  proof (intro impI, elim conjE)
    assume a: "readOk" "st = Some (Document (JArr rs))" "?good rs"
    from reviveAll_Inr [OF a(3), of hostDate]
    obtain xs where "reviveAll hostDate rs = Inr xs" "map fst xs = rs" by blast
    then show "\<exists>xs. loadReminders hostDate readOk st = SetReminders xs \<and> map fst xs = rs"
      using a(1,2) by (simp add: loadReminders_def loadBody_def)
  qed
  have 7: "\<not> (readOk \<and> (\<exists>rs. st = Some (Document (JArr rs)) \<and> ?good rs)) \<longrightarrow>
        remindersAfterLoad (loadReminders hostDate readOk st) = []"
  proof (intro impI)
    assume n: "\<not> (readOk \<and> (\<exists>rs. st = Some (Document (JArr rs)) \<and> ?good rs))"
    show "remindersAfterLoad (loadReminders hostDate readOk st) = []"
    proof (cases "readOk \<and> (\<exists>rs. st = Some (Document (JArr rs)))")
      case True
      then obtain rs' where s: "readOk" "st = Some (Document (JArr rs'))" by blast
      with n have "?bad rs'" by blast
      then have "reviveAll hostDate rs' = Inl TypeError" by (rule reviveAll_Inl)
      then show ?thesis using s by (simp add: remindersAfterLoad_def loadReminders_def loadBody_def)
    next
      case False
      then show ?thesis
        by (auto simp: remindersAfterLoad_def loadReminders_def loadBody_def
            split: option.splits stored.splits json.splits sum.splits)
    qed
  qed
  from 1 2 3 4 5 6 7 show ?thesis by blast
qed

theorem loadReminders_outcomes_witness:
  "loadReminders (\<lambda>j. None) False (Some (stringify [pills])) = ConsoleError ReadError
   \<and> loadReminders (\<lambda>j. None) True (Some Malformed) = ConsoleError SyntaxError
   \<and> remindersAfterLoad (loadReminders (\<lambda>j. None) True (Some Malformed)) = []
   \<and> loadReminders (\<lambda>j. None) True None = NotCalled
   \<and> loadReminders (\<lambda>j. None) True
        (Some (Document (JArr [JObj [(''time'', JObj [(''toString'', JNum 1)])]])))
      = ConsoleError TypeError
   \<and> remindersAfterLoad (loadReminders (\<lambda>j. None) True
        (Some (Document (JArr [JObj [(''time'', JObj [(''toString'', JNum 1)])]])))) = []"
proof -
  have a: "loadReminders (\<lambda>j. None) False (Some (stringify [pills])) = ConsoleError ReadError"
    using loadReminders_outcomes [of False "\<lambda>j. None" "Some (stringify [pills])"] by simp
  have b: "loadReminders (\<lambda>j. None) True (Some Malformed) = ConsoleError SyntaxError"
    using loadReminders_outcomes [of True "\<lambda>j. None" "Some Malformed"] by simp
  have c: "remindersAfterLoad (loadReminders (\<lambda>j. None) True (Some Malformed)) = []"
    using loadReminders_outcomes [of True "\<lambda>j. None" "Some Malformed"] by blast
  have d: "loadReminders (\<lambda>j. None) True None = NotCalled"
    using loadReminders_outcomes [of True "\<lambda>j. None" None] by simp
  have bad: "\<exists>r \<in> set [JObj [(''time'', JObj [(''toString'', JNum 1)])]].
      r = JNull \<or> (\<exists>t. getProp r ''time'' = Some t \<and> toStringThrows t)"
    by (simp add: getProp_def)
  have e: "loadReminders (\<lambda>j. None) True
        (Some (Document (JArr [JObj [(''time'', JObj [(''toString'', JNum 1)])]])))
      = ConsoleError TypeError"
    using loadReminders_outcomes [of True "\<lambda>j. None"
        "Some (Document (JArr [JObj [(''time'', JObj [(''toString'', JNum 1)])]]))" _
        "[JObj [(''time'', JObj [(''toString'', JNum 1)])]]"] bad
    by blast
  have f: "remindersAfterLoad (loadReminders (\<lambda>j. None) True
        (Some (Document (JArr [JObj [(''time'', JObj [(''toString'', JNum 1)])]])))) = []"
    by (simp only: e remindersAfterLoad_def loaded.case)
  from a b c d e f show ?thesis by blast
qed

text \<open>
  C8, as the specification states it, fails for stored data that is malformed in its
  records: an array whose one element has neither identifier, time nor repeat count is
  loaded as a collection of one entry with an invalid date.
\<close>

theorem loadReminders_trusts_records:
  "remindersAfterLoad
     (loadReminders (\<lambda>j. None) True (Some (Document (JArr [JObj [(''name'', JStr ''pills'')]]))))
   = [(JObj [(''name'', JStr ''pills'')], None)]"
  by (simp add: remindersAfterLoad_def loadReminders_def loadBody_def revive_def getProp_def
      newDate_def)

end
